theory Spec2Isabelle
  imports Complex_Main "HOL-Library.Sublist" "HOL-Library.AList"
begin

section \<open>The export engine: data model\<close>

text \<open>
  The export module renders a list of components and a set of design tokens into four
  formats (framer, figma, webflow, html). This theory embeds its functions.

  Modelling conventions.
  \<^item> A JavaScript string is the list of its code units. The model's \<open>char\<close> has eight
    bits, so the strings of the model are those whose code units are all below 256;
    \<open>toLowerCase\<close> and the class \<open>\s\<close> are given on that range.
  \<^item> A \<open>number\<close> field of a component holds an integer (\<open>int\<close>); fractions and \<open>NaN\<close>
    are outside the model. A product of two numbers is rounded as JavaScript rounds it,
    to the nearest double (\<open>timesNumber\<close>); \<open>JInfinity\<close> is the value \<open>Infinity\<close> (the flag
    says that it is negative). Conversion to a string is the decimal numeral, as for
    the integers that JavaScript prints in decimal digits. The colour channels divided
    by 255 are kept as exact quotients (\<open>rat\<close>).
  \<^item> An object is an association list in property order; \<open>map_of\<close> reads a property.
  \<^item> \<open>nanoid()\<close> and \<open>new Date().toISOString()\<close> read the outside world. An export call
    receives an environment that says what the k-th call of each returns during that
    export call.
\<close>

datatype json =
    JNull
  | JBool bool
  | JNum rat
  | JInfinity bool
  | JStr string
  | JArr "json list"
  | JObj "(string \<times> json) list"

text \<open>\<open>interface ExportComponent\<close>. The fields carry the prefix \<open>c_\<close>.\<close>

record ExportComponent =
  c_id :: string
  c_type :: string
  c_title :: string
  c_content :: string
  c_x :: int
  c_y :: int
  c_width :: int
  c_height :: int
  c_bgColor :: string
  c_textColor :: string
  c_properties :: "(string \<times> json) list"

text \<open>\<open>interface DesignTokens\<close>: three optional groups, each a string-keyed object of strings.\<close>

record DesignTokens =
  colors :: "(string \<times> string) list option"
  typography :: "(string \<times> string) list option"
  spacing :: "(string \<times> string) list option"

text \<open>The environment of one export call.\<close>

record env =
  nanoid :: "nat \<Rightarrow> string"
  toISOString :: "nat \<Rightarrow> string"

section \<open>Helper functions\<close>

subsection \<open>hexToRgb\<close>

text \<open>The character class \<open>[a-f\d]\<close> under the flag \<open>i\<close>.\<close>

definition isHexDigit :: "char \<Rightarrow> bool" where
  "isHexDigit ch \<longleftrightarrow> ch \<in> set ''0123456789abcdefABCDEF''"

text \<open>
  \<open>/^#?([a-f\d]{2})([a-f\d]{2})([a-f\d]{2})$/i.exec(hex)\<close>: the three captured groups,
  or \<open>None\<close> for \<open>null\<close>. The optional \<open>#\<close> is taken when it is there, since \<open>#\<close> is
  no hexadecimal digit; \<open>$\<close> without the flag \<open>m\<close> is the end of the input.
\<close>

definition hexPattern_exec :: "string \<Rightarrow> (string \<times> string \<times> string) option" where
  "hexPattern_exec hex =
     (let body = (case hex of [] \<Rightarrow> [] | ch # rest \<Rightarrow> if ch = CHR ''#'' then rest else hex)
      in if length body = 6 \<and> list_all isHexDigit body
         then Some (take 2 body, take 2 (drop 2 body), drop 4 body)
         else None)"

definition hexDigitTable :: "(char \<times> int) list" where
  "hexDigitTable =
     [(CHR ''0'', 0), (CHR ''1'', 1), (CHR ''2'', 2), (CHR ''3'', 3), (CHR ''4'', 4),
      (CHR ''5'', 5), (CHR ''6'', 6), (CHR ''7'', 7), (CHR ''8'', 8), (CHR ''9'', 9),
      (CHR ''a'', 10), (CHR ''b'', 11), (CHR ''c'', 12), (CHR ''d'', 13), (CHR ''e'', 14),
      (CHR ''f'', 15),
      (CHR ''A'', 10), (CHR ''B'', 11), (CHR ''C'', 12), (CHR ''D'', 13), (CHR ''E'', 14),
      (CHR ''F'', 15)]"

definition hexDigitValue :: "char \<Rightarrow> int" where
  "hexDigitValue ch = (case map_of hexDigitTable ch of Some v \<Rightarrow> v | None \<Rightarrow> 0)"

text \<open>
  \<open>parseInt(s, 16)\<close> on a string of hexadecimal digits, which is all \<open>hexToRgb\<close> passes
  to it (a captured group is two such digits).
\<close>

definition parseInt16 :: "string \<Rightarrow> int" where
  "parseInt16 s = foldl (\<lambda>acc ch. 16 * acc + hexDigitValue ch) 0 s"

record rgb =
  rgb_r :: int
  rgb_g :: int
  rgb_b :: int

definition hexToRgb :: "string \<Rightarrow> rgb" where
  "hexToRgb hex =
     (case hexPattern_exec hex of
        Some (g1, g2, g3) \<Rightarrow>
          \<lparr>rgb_r = parseInt16 g1, rgb_g = parseInt16 g2, rgb_b = parseInt16 g3\<rparr>
      | None \<Rightarrow> \<lparr>rgb_r = 0, rgb_g = 0, rgb_b = 0\<rparr>)"

subsection \<open>escapeHtml\<close>

text \<open>The object \<open>map\<close> of \<open>escapeHtml\<close>.\<close>

definition escapeMap :: "(char \<times> string) list" where
  \<open>escapeMap =
     [(CHR ''&'', ''&amp;''),
      (CHR ''<'', ''&lt;''),
      (CHR ''>'', ''&gt;''),
      (CHR 0x22, ''&quot;''),
      (CHR 0x27, ''&#039;'')]\<close>

text \<open>The character class \<open>[&<>"']\<close>.\<close>

definition isEscapeChar :: "char \<Rightarrow> bool" where
  "isEscapeChar ch \<longleftrightarrow> ch \<in> {CHR ''&'', CHR ''<'', CHR ''>'', CHR 0x22, CHR 0x27}"

text \<open>
  \<open>text.replace(re, fn)\<close> for a global regular expression \<open>re\<close> that is one character
  class: the scan goes left to right over the input, a matching character is replaced by
  what \<open>fn\<close> returns for it, and the scan resumes after the match in the input.
\<close>

fun replaceClass :: "(char \<Rightarrow> bool) \<Rightarrow> (char \<Rightarrow> string) \<Rightarrow> string \<Rightarrow> string" where
  "replaceClass cls fn [] = []"
| "replaceClass cls fn (ch # rest) =
     (if cls ch then fn ch else [ch]) @ replaceClass cls fn rest"

text \<open>A missing property reads as \<open>undefined\<close>, which \<open>replace\<close> turns into a string.\<close>

definition escapeHtml :: "string \<Rightarrow> string" where
  "escapeHtml text =
     replaceClass isEscapeChar
       (\<lambda>m. case map_of escapeMap m of Some e \<Rightarrow> e | None \<Rightarrow> ''undefined'') text"

text \<open>The entity of a character as the specification lists them, for comparison.\<close>

definition spec_entity :: "char \<Rightarrow> string" where
  \<open>spec_entity ch =
     (if ch = CHR ''&'' then ''&amp;''
      else if ch = CHR ''<'' then ''&lt;''
      else if ch = CHR ''>'' then ''&gt;''
      else if ch = CHR 0x22 then ''&quot;''
      else if ch = CHR 0x27 then ''&#039;''
      else [ch])\<close>

subsection \<open>Strings\<close>

text \<open>\<open>String(n)\<close> for an integer \<open>n\<close>, as a template literal inserts a number.\<close>

fun digitsOf :: "nat \<Rightarrow> string" where
  "digitsOf n =
     (if n < 10 then [''0123456789'' ! n]
      else digitsOf (n div 10) @ [''0123456789'' ! (n mod 10)])"

declare digitsOf.simps [simp del]

definition numToString :: "int \<Rightarrow> string" where
  "numToString n = (if n < 0 then CHR ''-'' # digitsOf (nat (- n)) else digitsOf (nat n))"

text \<open>\<open>toLowerCase\<close> on code units below 256: the letters A-Z and the capital letters
  of Latin-1 (0xC0-0xDE without the multiplication sign 0xD7) move up by 32.\<close>

definition toLowerChar :: "char \<Rightarrow> char" where
  "toLowerChar ch =
     (let n = (of_char ch :: nat)
      in if (65 \<le> n \<and> n \<le> 90) \<or> (192 \<le> n \<and> n \<le> 222 \<and> n \<noteq> 215)
         then char_of (n + 32) else ch)"

definition toLowerCase :: "string \<Rightarrow> string" where
  "toLowerCase s = map toLowerChar s"

text \<open>The class \<open>\s\<close> on code units below 256: tab, line feed, vertical tab, form feed,
  carriage return, space and no-break space.\<close>

definition isSpace :: "char \<Rightarrow> bool" where
  "isSpace ch \<longleftrightarrow> (of_char ch :: nat) \<in> {9, 10, 11, 12, 13, 32, 160}"

text \<open>\<open>text.replace(/\s+/g, rep)\<close>: every maximal run of white space becomes one
  \<open>rep\<close>. The flag says whether the scan is inside a run.\<close>

fun replaceSpaceRuns :: "string \<Rightarrow> bool \<Rightarrow> string \<Rightarrow> string" where
  "replaceSpaceRuns rep inRun [] = []"
| "replaceSpaceRuns rep inRun (ch # rest) =
     (if isSpace ch then (if inRun then [] else rep) @ replaceSpaceRuns rep True rest
      else ch # replaceSpaceRuns rep False rest)"

text \<open>\<open>Array.prototype.join\<close>.\<close>

fun join :: "string \<Rightarrow> string list \<Rightarrow> string" where
  "join sep [] = []"
| "join sep [s] = s"
| "join sep (s # t # rest) = s @ sep @ join sep (t # rest)"

subsection \<open>Numbers\<close>

text \<open>The distance between neighbouring doubles at the magnitude \<open>m\<close>: 1 below
  \<open>2^53\<close>, and twice as much with every further bit.\<close>

fun ulp :: "nat \<Rightarrow> nat" where
  "ulp m = (if m < 2 ^ 53 then 1 else 2 * ulp (m div 2))"

declare ulp.simps [simp del]

text \<open>The double nearest to a natural number; of two doubles equally near, the one
  whose last bit is 0.\<close>

definition roundToDouble :: "nat \<Rightarrow> nat" where
  "roundToDouble m =
     (let u = ulp m; q = m div u; r = m mod u
      in if u < 2 * r \<or> (2 * r = u \<and> odd q) then (q + 1) * u else q * u)"

text \<open>\<open>a * b\<close> for two numbers that hold integers: the exact product rounded to the
  nearest double, and \<open>Infinity\<close> when that is beyond the largest double.\<close>

definition timesNumber :: "int \<Rightarrow> int \<Rightarrow> json" where
  "timesNumber a b =
     (let p = a * b; m = roundToDouble (nat \<bar>p\<bar>)
      in if 2 ^ 1024 \<le> m then JInfinity (p < 0) else JNum (of_int (sgn p * int m)))"

subsection \<open>Objects\<close>

text \<open>\<open>{ ...obj, ...src }\<close>: the properties of \<open>src\<close> are written one after the
  other into \<open>obj\<close>; a key that is there keeps its place and takes the new value, a new
  key goes to the end.\<close>

definition spread :: "(string \<times> json) list \<Rightarrow> (string \<times> json) list \<Rightarrow> (string \<times> json) list" where
  "spread obj src = fold (\<lambda>(k, v). AList.update k v) src obj"

text \<open>A \<open>Record<string, string>\<close> as a value.\<close>

definition recordJson :: "(string \<times> string) list \<Rightarrow> json" where
  "recordJson m = JObj (map (\<lambda>(k, v). (k, JStr v)) m)"

text \<open>\<open>group || {}\<close> for an optional token group.\<close>

definition orEmpty :: "(string \<times> string) list option \<Rightarrow> (string \<times> string) list" where
  "orEmpty grp = (case grp of Some m \<Rightarrow> m | None \<Rightarrow> [])"

text \<open>The object \<open>designTokens\<close> as a value: a group that is absent is no property.\<close>

definition tokenGroup :: "string \<Rightarrow> (string \<times> string) list option \<Rightarrow> (string \<times> json) list" where
  "tokenGroup k grp = (case grp of Some m \<Rightarrow> [(k, recordJson m)] | None \<Rightarrow> [])"

definition designTokensJson :: "DesignTokens \<Rightarrow> json" where
  "designTokensJson designTokens =
     JObj (tokenGroup ''colors'' (colors designTokens)
           @ tokenGroup ''typography'' (typography designTokens)
           @ tokenGroup ''spacing'' (spacing designTokens))"

text \<open>Reading a value: a path of property names and array indices, \<open>None\<close> where the
  path leaves the value.\<close>

datatype sel = Key string | Idx nat

fun jat :: "sel list \<Rightarrow> json \<Rightarrow> json option" where
  "jat [] v = Some v"
| "jat (Key k # p) (JObj kvs) = (case map_of kvs k of Some v \<Rightarrow> jat p v | None \<Rightarrow> None)"
| "jat (Idx i # p) (JArr vs) = (if i < length vs then jat p (vs ! i) else None)"
| "jat (s # p) v = None"

subsection \<open>Storage\<close>

text \<open>What an export hands to \<open>storagePut\<close>: the value given to \<open>JSON.stringify\<close>, or the
  text of the document. \<open>storagePut\<close> is imported from another module; it is a parameter
  of the export functions, and its failure is the failure of the export.\<close>

datatype buffer = JsonBuffer json | TextBuffer string

record ExportResult =
  url :: string
  fileKey :: string
  format :: string
  fileName :: string

section \<open>The four exports\<close>

subsection \<open>Framer\<close>

definition framerComponent :: "ExportComponent \<Rightarrow> json" where
  "framerComponent cmp =
     JObj [(''id'', JStr (c_id cmp)),
           (''name'', JStr (c_title cmp)),
           (''type'', JStr (c_type cmp)),
           (''props'',
              JObj (spread
                [(''title'', JStr (c_title cmp)),
                 (''content'', JStr (c_content cmp)),
                 (''backgroundColor'', JStr (c_bgColor cmp)),
                 (''textColor'', JStr (c_textColor cmp)),
                 (''width'', JNum (of_int (c_width cmp))),
                 (''height'', JNum (of_int (c_height cmp))),
                 (''x'', JNum (of_int (c_x cmp))),
                 (''y'', JNum (of_int (c_y cmp)))]
                (c_properties cmp))),
           (''children'', JArr [])]"

definition framerConfig :: "ExportComponent list \<Rightarrow> DesignTokens \<Rightarrow> string \<Rightarrow> env \<Rightarrow> json" where
  "framerConfig components designTokens projectName e =
     JObj [(''version'', JStr ''1.0.0''),
           (''name'', JStr projectName),
           (''metadata'',
              JObj [(''exportedAt'', JStr (toISOString e 0)),
                    (''format'', JStr ''framer'')]),
           (''designTokens'', designTokensJson designTokens),
           (''components'', JArr (map framerComponent components)),
           (''frames'',
              JArr [JObj [(''id'', JStr ''frame-1''),
                          (''name'', JStr ''Main Frame''),
                          (''width'', JNum 1440),
                          (''height'', JNum (of_nat (length components * 400))),
                          (''children'', JArr (map (\<lambda>c. JStr (c_id c)) components))]])]"


subsection \<open>Figma\<close>

text \<open>The paint object that the source writes out for a frame, a text and a style:
  a solid paint of the colour \<open>hexToRgb\<close> decodes, each channel divided by 255.\<close>

definition solidPaint :: "string \<Rightarrow> json" where
  "solidPaint hex =
     JObj [(''blendMode'', JStr ''NORMAL''),
           (''type'', JStr ''SOLID''),
           (''color'',
              JObj [(''r'', JNum (of_int (rgb_r (hexToRgb hex)) / 255)),
                    (''g'', JNum (of_int (rgb_g (hexToRgb hex)) / 255)),
                    (''b'', JNum (of_int (rgb_b (hexToRgb hex)) / 255)),
                    (''a'', JNum 1)])]"

definition figmaFrame :: "nat \<times> ExportComponent \<Rightarrow> json" where
  "figmaFrame = (\<lambda>(idx, cmp).
     JObj [(''id'', JStr (numToString (int idx) @ '':0'')),
           (''name'', JStr (c_title cmp)),
           (''type'', JStr ''FRAME''),
           (''x'', JNum (of_int (c_x cmp))),
           (''y'', JNum (of_int (c_y cmp))),
           (''width'', timesNumber (c_width cmp) 10),
           (''height'', timesNumber (c_height cmp) 10),
           (''fills'', JArr [solidPaint (c_bgColor cmp)]),
           (''children'',
              JArr [JObj [(''id'', JStr (numToString (int idx) @ '':1'')),
                          (''name'', JStr ''Text''),
                          (''type'', JStr ''TEXT''),
                          (''characters'', JStr (c_content cmp)),
                          (''fills'', JArr [solidPaint (c_textColor cmp)])]])])"

text \<open>One style for each entry of the colour tokens; the k-th entry takes the k-th
  identifier of the call.\<close>

definition figmaStyle :: "env \<Rightarrow> nat \<times> string \<times> string \<Rightarrow> json" where
  "figmaStyle e = (\<lambda>(k, name, color).
     JObj [(''key'', JStr (nanoid e k)),
           (''name'', JStr (''Color/'' @ name)),
           (''description'', JStr (''Color token: '' @ name)),
           (''remote'', JBool False),
           (''paints'', JArr [solidPaint color])])"

definition figmaDocument :: "ExportComponent list \<Rightarrow> DesignTokens \<Rightarrow> string \<Rightarrow> env \<Rightarrow> json" where
  "figmaDocument components designTokens projectName e =
     JObj [(''document'',
              JObj [(''id'', JStr ''0:0''),
                    (''name'', JStr projectName),
                    (''type'', JStr ''DOCUMENT''),
                    (''children'',
                       JArr [JObj [(''id'', JStr ''1:0''),
                                   (''name'', JStr ''Page 1''),
                                   (''type'', JStr ''CANVAS''),
                                   (''children'',
                                      JArr (map figmaFrame (enumerate 0 components)))]])]),
           (''assets'', JArr []),
           (''styles'',
              JArr (map (figmaStyle e) (enumerate 0 (orEmpty (colors designTokens)))))]"


subsection \<open>Webflow\<close>

text \<open>The calls in evaluation order: \<open>nanoid\<close> 0 is the site's \<open>_id\<close>, 1 the page's, 2 the
  root element's, 3 + i the paragraph's of component i, then the locale's and the file
  key's; \<open>toISOString\<close> 0 to 3 are the site's dates and 4 to 6 the page's.\<close>

definition webflowNode :: "env \<Rightarrow> nat \<times> ExportComponent \<Rightarrow> json" where
  "webflowNode e = (\<lambda>(i, cmp).
     JObj [(''_id'', JStr (c_id cmp)),
           (''tag'', JStr ''div''),
           (''text'', JStr (c_title cmp)),
           (''role'', JStr ''section''),
           (''classes'', JArr [JStr (''component-'' @ c_type cmp)]),
           (''customAttributes'', JObj [(''data-component-type'', JStr (c_type cmp))]),
           (''style'',
              JObj [(''backgroundColor'', JStr (c_bgColor cmp)),
                    (''color'', JStr (c_textColor cmp)),
                    (''width'', JStr (numToString (c_width cmp) @ ''%'')),
                    (''height'', JStr (numToString (c_height cmp) @ ''px'')),
                    (''position'', JStr ''relative''),
                    (''left'', JStr (numToString (c_x cmp) @ ''%'')),
                    (''top'', JStr (numToString (c_y cmp) @ ''px''))]),
           (''children'',
              JArr [JObj [(''_id'', JStr (nanoid e (3 + i))),
                          (''tag'', JStr ''p''),
                          (''text'', JStr (c_content cmp))]])])"

definition webflowSite :: "ExportComponent list \<Rightarrow> DesignTokens \<Rightarrow> string \<Rightarrow> env \<Rightarrow> json" where
  "webflowSite components designTokens projectName e =
     JObj [(''_id'', JStr (nanoid e 0)),
           (''createdOn'', JStr (toISOString e 0)),
           (''updatedOn'', JStr (toISOString e 1)),
           (''publishedOn'', JStr (toISOString e 2)),
           (''name'', JStr projectName),
           (''shortName'', JStr (replaceSpaceRuns ''-'' False (toLowerCase projectName))),
           (''lastPublishedOn'', JStr (toISOString e 3)),
           (''createdBy'', JStr ''ai-builder''),
           (''updatedBy'', JStr ''ai-builder''),
           (''pages'',
              JArr [JObj [(''_id'', JStr (nanoid e 1)),
                          (''createdOn'', JStr (toISOString e 4)),
                          (''updatedOn'', JStr (toISOString e 5)),
                          (''publishedOn'', JStr (toISOString e 6)),
                          (''name'', JStr ''Home''),
                          (''slug'', JStr ''index''),
                          (''title'', JStr (projectName @ '' - Home'')),
                          (''rootElementId'', JStr (nanoid e 2)),
                          (''children'',
                             JArr (map (webflowNode e) (enumerate 0 components)))]]),
           (''globalStyles'',
              JObj [(''colors'', recordJson (orEmpty (colors designTokens))),
                    (''typography'', recordJson (orEmpty (typography designTokens))),
                    (''spacing'', recordJson (orEmpty (spacing designTokens)))]),
           (''cmsLocales'',
              JArr [JObj [(''_id'', JStr (nanoid e (3 + length components))),
                          (''name'', JStr ''English''),
                          (''default'', JBool True),
                          (''code'', JStr ''en'')]])]"


subsection \<open>HTML and CSS\<close>

definition cssVariable :: "string \<times> string \<Rightarrow> string" where
  "cssVariable = (\<lambda>(name, color). ''  --color-'' @ toLowerCase name @ '': '' @ color @ '';'')"

definition cssVariables :: "DesignTokens \<Rightarrow> string" where
  "cssVariables designTokens =
     join ''\<newline>'' (map cssVariable (orEmpty (colors designTokens)))"

definition componentHTML :: "ExportComponent \<Rightarrow> string" where
  \<open>componentHTML cmp =
     ''\<newline>'' @
     ''  <section class="component component-'' @ c_type cmp
       @ ''" style="background-color: '' @ c_bgColor cmp
       @ ''; color: '' @ c_textColor cmp
       @ ''; width: '' @ numToString (c_width cmp)
       @ ''%; height: '' @ numToString (c_height cmp) @ ''px;">\<newline>'' @
     ''    <div class="component-content">\<newline>'' @
     ''      <h2>'' @ escapeHtml (c_title cmp) @ ''</h2>\<newline>'' @
     ''      <p>'' @ escapeHtml (c_content cmp) @ ''</p>\<newline>'' @
     ''    </div>\<newline>'' @
     ''  </section>\<newline>''\<close>

definition componentsHTML :: "ExportComponent list \<Rightarrow> string" where
  "componentsHTML components = join ''\<newline>'' (map componentHTML components)"

text \<open>The fixed text of the document: up to the title, from the title to the first
  custom property, the style rules after the last custom property, from the end of the
  style sheet to the first section, and the end.\<close>

definition htmlBeforeTitle :: string where
  \<open>htmlBeforeTitle =
     ''<!DOCTYPE html>\<newline>'' @
     ''<html lang="en">\<newline>'' @
     ''<head>\<newline>'' @
     ''  <meta charset="UTF-8">\<newline>'' @
     ''  <meta name="viewport" content="width=device-width, initial-scale=1.0">\<newline>'' @
     ''  <title>''\<close>

definition htmlBeforeVariables :: string where
  \<open>htmlBeforeVariables =
     ''</title>\<newline>'' @
     ''  <style>\<newline>'' @
     ''    :root {\<newline>''\<close>

definition htmlStyleRules :: string where
  \<open>htmlStyleRules =
     ''\<newline>'' @
     ''    }\<newline>'' @
     ''\<newline>'' @
     ''    * {\<newline>'' @
     ''      margin: 0;\<newline>'' @
     ''      padding: 0;\<newline>'' @
     ''      box-sizing: border-box;\<newline>'' @
     ''    }\<newline>'' @
     ''\<newline>'' @
     ''    body {\<newline>'' @
     ''      font-family: -apple-system, BlinkMacSystemFont, 'Segoe UI', Roboto, Oxygen, Ubuntu, Cantarell, sans-serif;\<newline>'' @
     ''      line-height: 1.6;\<newline>'' @
     ''      color: #333;\<newline>'' @
     ''    }\<newline>'' @
     ''\<newline>'' @
     ''    .container {\<newline>'' @
     ''      max-width: 1440px;\<newline>'' @
     ''      margin: 0 auto;\<newline>'' @
     ''      padding: 0 20px;\<newline>'' @
     ''    }\<newline>'' @
     ''\<newline>'' @
     ''    .component {\<newline>'' @
     ''      padding: 40px 20px;\<newline>'' @
     ''      margin: 20px 0;\<newline>'' @
     ''      border-radius: 8px;\<newline>'' @
     ''      transition: all 0.3s ease;\<newline>'' @
     ''    }\<newline>'' @
     ''\<newline>'' @
     ''    .component-content {\<newline>'' @
     ''      max-width: 1200px;\<newline>'' @
     ''      margin: 0 auto;\<newline>'' @
     ''    }\<newline>'' @
     ''\<newline>'' @
     ''    .component-content h2 {\<newline>'' @
     ''      font-size: 2rem;\<newline>'' @
     ''      margin-bottom: 1rem;\<newline>'' @
     ''      font-weight: 600;\<newline>'' @
     ''    }\<newline>'' @
     ''\<newline>'' @
     ''    .component-content p {\<newline>'' @
     ''      font-size: 1rem;\<newline>'' @
     ''      line-height: 1.8;\<newline>'' @
     ''      opacity: 0.9;\<newline>'' @
     ''    }\<newline>'' @
     ''\<newline>'' @
     ''    /* Responsive Design */\<newline>'' @
     ''    @media (max-width: 768px) {\<newline>'' @
     ''      .component {\<newline>'' @
     ''        padding: 30px 15px;\<newline>'' @
     ''      }\<newline>'' @
     ''\<newline>'' @
     ''      .component-content h2 {\<newline>'' @
     ''        font-size: 1.5rem;\<newline>'' @
     ''      }\<newline>'' @
     ''\<newline>'' @
     ''      .component-content p {\<newline>'' @
     ''        font-size: 0.95rem;\<newline>'' @
     ''      }\<newline>'' @
     ''    }\<newline>'' @
     ''\<newline>'' @
     ''    @media (max-width: 480px) {\<newline>'' @
     ''      .component {\<newline>'' @
     ''        padding: 20px 10px;\<newline>'' @
     ''      }\<newline>'' @
     ''\<newline>'' @
     ''      .component-content h2 {\<newline>'' @
     ''        font-size: 1.25rem;\<newline>'' @
     ''      }\<newline>'' @
     ''\<newline>'' @
     ''      .component-content p {\<newline>'' @
     ''        font-size: 0.9rem;\<newline>'' @
     ''      }\<newline>'' @
     ''    }\<newline>''\<close>

definition htmlBeforeComponents :: string where
  \<open>htmlBeforeComponents =
     ''  </style>\<newline>'' @
     ''</head>\<newline>'' @
     ''<body>\<newline>'' @
     ''  <div class="container">\<newline>''\<close>

definition htmlAfterComponents :: string where
  \<open>htmlAfterComponents =
     ''\<newline>'' @
     ''  </div>\<newline>'' @
     ''</body>\<newline>'' @
     ''</html>''\<close>

definition htmlContent :: "ExportComponent list \<Rightarrow> DesignTokens \<Rightarrow> string \<Rightarrow> string" where
  "htmlContent components designTokens projectName =
     htmlBeforeTitle @ escapeHtml projectName @ htmlBeforeVariables
     @ cssVariables designTokens @ htmlStyleRules @ htmlBeforeComponents
     @ componentsHTML components @ htmlAfterComponents"

definition exportToHTML ::
  "ExportComponent list \<Rightarrow> DesignTokens \<Rightarrow> string \<Rightarrow> env
     \<Rightarrow> (string \<Rightarrow> buffer \<Rightarrow> string \<Rightarrow> 'e + string) \<Rightarrow> 'e + ExportResult" where
  "exportToHTML components designTokens projectName e storagePut =
     (let fileKey = ''exports/'' @ projectName @ ''/html-'' @ nanoid e 0 @ ''.html''
      in case storagePut fileKey
                (TextBuffer (htmlContent components designTokens projectName))
                ''text/html'' of
           Inl err \<Rightarrow> Inl err
         | Inr u \<Rightarrow>
             Inr \<lparr>url = u, fileKey = fileKey, format = ''html'',
                  fileName = projectName @ ''.html''\<rparr>)"

section \<open>Observing the outputs\<close>

text \<open>The fields in which two values differ, as paths: two objects with the same keys
  in the same order and two arrays of the same length are compared field by field,
  everything else is compared as a whole. The empty list says that the values are equal.\<close>

fun jdiff :: "json \<Rightarrow> json \<Rightarrow> sel list list"
  and jdiffArr :: "nat \<Rightarrow> json list \<Rightarrow> json list \<Rightarrow> sel list list"
  and jdiffObj :: "(string \<times> json) list \<Rightarrow> (string \<times> json) list \<Rightarrow> sel list list" where
  "jdiff (JArr vs) (JArr ws) =
     (if length vs = length ws then jdiffArr 0 vs ws else [[]])"
| "jdiff (JObj kvs) (JObj kws) =
     (if map fst kvs = map fst kws then jdiffObj kvs kws else [[]])"
| "jdiff v w = (if v = w then [] else [[]])"
| "jdiffArr i (v # vs) (w # ws) = map ((#) (Idx i)) (jdiff v w) @ jdiffArr (Suc i) vs ws"
| "jdiffArr i vs ws = []"
| "jdiffObj ((k, v) # kvs) ((k', w) # kws) = map ((#) (Key k)) (jdiff v w) @ jdiffObj kvs kws"
| "jdiffObj kvs kws = []"

text \<open>The \<open>section\<close> elements of a document, in document order: for every place where
  the text \<open><section\<close> starts, the text of the document that follows it.\<close>

fun sectionStarts :: "string \<Rightarrow> string list" where
  "sectionStarts [] = []"
| "sectionStarts (ch # rest) =
     (if ch = CHR ''<'' \<and> prefix ''section'' rest then [drop 7 rest] else [])
     @ sectionStarts rest"

text \<open>The value of the attribute \<open>class\<close> when it is the first attribute of a tag: the
  text between \<open>class="\<close> and the next quotation mark.\<close>

definition classAttr :: "string \<Rightarrow> string option" where
  \<open>classAttr tag =
     (if prefix '' class="'' tag then Some (takeWhile (\<lambda>c. c \<noteq> CHR 0x22) (drop 8 tag))
      else None)\<close>

text \<open>The text the specification gives the opening tag of a component's section (after
  \<open><section\<close>): the two classes and the inline style of the four values.\<close>

definition spec_sectionTag :: "ExportComponent \<Rightarrow> string" where
  \<open>spec_sectionTag c =
     '' class="component component-'' @ c_type c
       @ ''" style="background-color: '' @ c_bgColor c
       @ ''; color: '' @ c_textColor c
       @ ''; width: '' @ numToString (c_width c)
       @ ''%; height: '' @ numToString (c_height c) @ ''px;"''\<close>


text \<open>The text of a component's section after its opening tag.\<close>

definition componentBody :: "ExportComponent \<Rightarrow> string" where
  \<open>componentBody c = 
     ''\<newline>'' @
     ''    <div class="component-content">\<newline>'' @
     ''      <h2>'' @ escapeHtml (c_title c) @ ''</h2>\<newline>'' @
     ''      <p>'' @ escapeHtml (c_content c) @ ''</p>\<newline>'' @
     ''    </div>\<newline>'' @
     ''  </section>\<newline>''\<close>

section \<open>Example inputs\<close>

text \<open>\<open>mockComponent\<close> and \<open>mockDesignTokens\<close> of \<open>server/exports.test.ts\<close>.\<close>

definition mockComponent :: ExportComponent where
  "mockComponent =
     \<lparr>c_id = ''comp-1'', c_type = ''hero'', c_title = ''Hero Section'',
      c_content = ''Welcome to our website'', c_x = 0, c_y = 0, c_width = 100,
      c_height = 400, c_bgColor = ''#3B82F6'', c_textColor = ''#FFFFFF'',
      c_properties = []\<rparr>"

definition mockDesignTokens :: DesignTokens where
  "mockDesignTokens =
     \<lparr>colors = Some [(''primary'', ''#3B82F6''), (''secondary'', ''#10B981''),
                     (''accent'', ''#F59E0B'')],
      typography = Some [(''fontFamily'', ''Inter, sans-serif''), (''headingSize'', ''2rem''),
                         (''bodySize'', ''1rem'')],
      spacing = Some [(''sm'', ''0.5rem''), (''md'', ''1rem''), (''lg'', ''2rem'')]\<rparr>"

text \<open>\<open>designTokens = {}\<close>.\<close>

definition noTokens :: DesignTokens where
  "noTokens = \<lparr>colors = None, typography = None, spacing = None\<rparr>"

text \<open>Two runs at the same time of day whose identifiers differ.\<close>

definition runA :: env where
  "runA = \<lparr>nanoid = (\<lambda>k. ''run-a-'' @ replicate (Suc k) CHR ''x''),
           toISOString = (\<lambda>k. ''2024-01-01T00:00:00.000Z'')\<rparr>"

definition runB :: env where
  "runB = \<lparr>nanoid = (\<lambda>k. ''run-b-'' @ replicate (Suc k) CHR ''x''),
           toISOString = (\<lambda>k. ''2024-01-01T00:00:00.000Z'')\<rparr>"

text \<open>A component whose type closes the attribute and the tag and opens a second
  section; one whose type closes the attribute and adds another; one whose background
  colour does; one whose open properties name an explicit field.\<close>

definition injectedComponent :: ExportComponent where
  \<open>injectedComponent = mockComponent\<lparr>c_type := ''x"><section class="y''\<rparr>\<close>

definition quotedTypeComponent :: ExportComponent where
  \<open>quotedTypeComponent = mockComponent\<lparr>c_type := ''hero" id="main''\<rparr>\<close>

definition quotedColorComponent :: ExportComponent where
  \<open>quotedColorComponent = mockComponent\<lparr>c_bgColor := ''red;" onclick="go()''\<rparr>\<close>

definition overridingComponent :: ExportComponent where
  "overridingComponent =
     mockComponent\<lparr>c_properties := [(''width'', JNum 50), (''variant'', JStr ''dark'')]\<rparr>"

text \<open>A second component, and one as wide as the largest integer below \<open>2^53\<close>
  (\<open>Number.MAX_SAFE_INTEGER\<close>).\<close>

definition featuresComponent :: ExportComponent where
  "featuresComponent =
     \<lparr>c_id = ''comp-2'', c_type = ''features'', c_title = ''Features'',
      c_content = ''Fast & simple'', c_x = 10, c_y = 400, c_width = 80,
      c_height = 300, c_bgColor = ''#FFFFFF'', c_textColor = ''#111827'',
      c_properties = []\<rparr>"


section \<open>Properties of the helpers\<close>

lemma hexDigitValue_range:
  "0 \<le> hexDigitValue ch \<and> hexDigitValue ch \<le> 15"
  by (simp add: hexDigitValue_def hexDigitTable_def)

lemma parseInt16_two:
  "parseInt16 [d1, d2] = 16 * hexDigitValue d1 + hexDigitValue d2"
  by (simp add: parseInt16_def)

lemma parseInt16_two_range:
  "0 \<le> parseInt16 [d1, d2] \<and> parseInt16 [d1, d2] \<le> 255"
  using hexDigitValue_range [of d1] hexDigitValue_range [of d2]
  by (simp add: parseInt16_two)

lemma length6_cases:
  assumes "length ds = 6"
  obtains d1 d2 d3 d4 d5 d6 where "ds = [d1, d2, d3, d4, d5, d6]"
proof -
  from assms obtain d1 r1 where "ds = d1 # r1" "length r1 = 5" by (cases ds) auto
  moreover then obtain d2 r2 where "r1 = d2 # r2" "length r2 = 4" by (cases r1) auto
  moreover then obtain d3 r3 where "r2 = d3 # r3" "length r3 = 3" by (cases r2) auto
  moreover then obtain d4 r4 where "r3 = d4 # r4" "length r4 = 2" by (cases r3) auto
  moreover then obtain d5 r5 where "r4 = d5 # r5" "length r5 = 1" by (cases r4) auto
  moreover then obtain d6 where "r5 = [d6]" by (cases r5) auto
  ultimately show thesis using that by simp
qed

lemma hash_not_hex: "\<not> isHexDigit CHR ''#''"
  by (simp add: isHexDigit_def)

lemma hexPattern_exec_plain:
  assumes "length ds = 6" "list_all isHexDigit ds"
  shows "hexPattern_exec ds = Some (take 2 ds, take 2 (drop 2 ds), drop 4 ds)"
proof -
  from assms(1) obtain d1 d2 d3 d4 d5 d6 where ds: "ds = [d1, d2, d3, d4, d5, d6]"
    by (rule length6_cases)
  with assms(2) have "d1 \<noteq> CHR ''#''" using hash_not_hex by auto
  with assms ds show ?thesis by (simp add: hexPattern_exec_def Let_def)
qed

lemma hexPattern_exec_hash:
  assumes "length ds = 6" "list_all isHexDigit ds"
  shows "hexPattern_exec (CHR ''#'' # ds) = Some (take 2 ds, take 2 (drop 2 ds), drop 4 ds)"
  using assms by (simp add: hexPattern_exec_def Let_def)

lemma hexPattern_exec_Some:
  assumes "hexPattern_exec s = Some grp"
  shows "\<exists>ds. length ds = 6 \<and> list_all isHexDigit ds \<and> (s = ds \<or> s = CHR ''#'' # ds)
           \<and> grp = (take 2 ds, take 2 (drop 2 ds), drop 4 ds)"
proof -
  define body where "body = (case s of [] \<Rightarrow> [] | ch # rest \<Rightarrow> if ch = CHR ''#'' then rest else s)"
  have unfold: "hexPattern_exec s =
      (if length body = 6 \<and> list_all isHexDigit body
       then Some (take 2 body, take 2 (drop 2 body), drop 4 body) else None)"
    unfolding hexPattern_exec_def body_def Let_def ..
  have shape: "s = body \<or> s = CHR ''#'' # body"
    by (cases s) (simp_all add: body_def)
  from assms unfold have "length body = 6 \<and> list_all isHexDigit body
      \<and> grp = (take 2 body, take 2 (drop 2 body), drop 4 body)"
    by (simp split: if_splits)
  with shape show ?thesis by blast
qed

lemma hexToRgb_range:
  "0 \<le> rgb_r (hexToRgb s) \<and> rgb_r (hexToRgb s) \<le> 255
   \<and> 0 \<le> rgb_g (hexToRgb s) \<and> rgb_g (hexToRgb s) \<le> 255
   \<and> 0 \<le> rgb_b (hexToRgb s) \<and> rgb_b (hexToRgb s) \<le> 255"
proof (cases "hexPattern_exec s")
  case None
  then show ?thesis by (simp add: hexToRgb_def)
next
  case (Some grp)
  then obtain ds where "length ds = 6"
    and grp: "grp = (take 2 ds, take 2 (drop 2 ds), drop 4 ds)"
    using hexPattern_exec_Some by blast
  then obtain d1 d2 d3 d4 d5 d6 where "ds = [d1, d2, d3, d4, d5, d6]"
    using length6_cases by blast
  with Some grp show ?thesis
    using parseInt16_two_range [of d1 d2] parseInt16_two_range [of d3 d4]
      parseInt16_two_range [of d5 d6]
    by (simp add: hexToRgb_def)
qed

lemma hexToRgb_valid:
  assumes "length ds = 6" "list_all isHexDigit ds" "s = ds \<or> s = CHR ''#'' # ds"
  shows "hexToRgb s =
     \<lparr>rgb_r = 16 * hexDigitValue (ds ! 0) + hexDigitValue (ds ! 1),
      rgb_g = 16 * hexDigitValue (ds ! 2) + hexDigitValue (ds ! 3),
      rgb_b = 16 * hexDigitValue (ds ! 4) + hexDigitValue (ds ! 5)\<rparr>"
proof -
  from assms(1) obtain d1 d2 d3 d4 d5 d6 where ds: "ds = [d1, d2, d3, d4, d5, d6]"
    by (rule length6_cases)
  have "hexPattern_exec s = Some (take 2 ds, take 2 (drop 2 ds), drop 4 ds)"
    using assms hexPattern_exec_plain hexPattern_exec_hash by blast
  then show ?thesis
    by (simp add: hexToRgb_def ds parseInt16_two)
qed

lemma hexToRgb_invalid:
  assumes "\<not> (\<exists>ds. length ds = 6 \<and> list_all isHexDigit ds \<and> (s = ds \<or> s = CHR ''#'' # ds))"
  shows "hexToRgb s = \<lparr>rgb_r = 0, rgb_g = 0, rgb_b = 0\<rparr>"
proof (cases "hexPattern_exec s")
  case None
  then show ?thesis by (simp add: hexToRgb_def)
next
  case (Some grp)
  with assms show ?thesis using hexPattern_exec_Some by blast
qed

lemma hexToRgb_example:
  "hexToRgb ''#3B82F6'' = \<lparr>rgb_r = 59, rgb_g = 130, rgb_b = 246\<rparr>"
  by (simp add: hexToRgb_def hexPattern_exec_def isHexDigit_def parseInt16_def
      hexDigitValue_def hexDigitTable_def)

lemma hexDigitValue_table:
  "map hexDigitValue ''0123456789abcdefABCDEF''
     = [0, 1, 2, 3, 4, 5, 6, 7, 8, 9, 10, 11, 12, 13, 14, 15, 10, 11, 12, 13, 14, 15]"
  by (simp add: hexDigitValue_def hexDigitTable_def)

lemma list_all_isHexDigit:
  "list_all isHexDigit ds \<longleftrightarrow> set ds \<subseteq> set ''0123456789abcdefABCDEF''"
  unfolding list_all_iff isHexDigit_def by blast

text \<open>
  C2. \<open>hexToRgb\<close> is total and every channel it returns lies between 0 and 255. A string
  of exactly six hexadecimal digits (either case), with or without a leading \<open>#\<close>,
  decodes to the three two-digit values; the digit values are the usual ones;
  \<open>#3B82F6\<close> decodes to 59, 130, 246. Every other string decodes to 0, 0, 0.
\<close>

theorem hexToRgb_total_exact:
  "(0 \<le> rgb_r (hexToRgb s) \<and> rgb_r (hexToRgb s) \<le> 255
    \<and> 0 \<le> rgb_g (hexToRgb s) \<and> rgb_g (hexToRgb s) \<le> 255
    \<and> 0 \<le> rgb_b (hexToRgb s) \<and> rgb_b (hexToRgb s) \<le> 255)
   \<and> (\<forall>ds. length ds = 6 \<and> set ds \<subseteq> set ''0123456789abcdefABCDEF''
            \<and> (s = ds \<or> s = CHR ''#'' # ds)
         \<longrightarrow> hexToRgb s =
               \<lparr>rgb_r = 16 * hexDigitValue (ds ! 0) + hexDigitValue (ds ! 1),
                rgb_g = 16 * hexDigitValue (ds ! 2) + hexDigitValue (ds ! 3),
                rgb_b = 16 * hexDigitValue (ds ! 4) + hexDigitValue (ds ! 5)\<rparr>)
   \<and> map hexDigitValue ''0123456789abcdefABCDEF''
         = [0, 1, 2, 3, 4, 5, 6, 7, 8, 9, 10, 11, 12, 13, 14, 15, 10, 11, 12, 13, 14, 15]
   \<and> hexToRgb ''#3B82F6'' = \<lparr>rgb_r = 59, rgb_g = 130, rgb_b = 246\<rparr>
   \<and> (\<not> (\<exists>ds. length ds = 6 \<and> set ds \<subseteq> set ''0123456789abcdefABCDEF''
               \<and> (s = ds \<or> s = CHR ''#'' # ds))
        \<longrightarrow> hexToRgb s = \<lparr>rgb_r = 0, rgb_g = 0, rgb_b = 0\<rparr>)"
proof (intro conjI allI impI)
  fix ds
  assume "length ds = 6 \<and> set ds \<subseteq> set ''0123456789abcdefABCDEF''
            \<and> (s = ds \<or> s = CHR ''#'' # ds)"
  then show "hexToRgb s =
               \<lparr>rgb_r = 16 * hexDigitValue (ds ! 0) + hexDigitValue (ds ! 1),
                rgb_g = 16 * hexDigitValue (ds ! 2) + hexDigitValue (ds ! 3),
                rgb_b = 16 * hexDigitValue (ds ! 4) + hexDigitValue (ds ! 5)\<rparr>"
    using hexToRgb_valid [of ds s] unfolding list_all_isHexDigit by blast
next
  assume "\<not> (\<exists>ds. length ds = 6 \<and> set ds \<subseteq> set ''0123456789abcdefABCDEF''
               \<and> (s = ds \<or> s = CHR ''#'' # ds))"
  then show "hexToRgb s = \<lparr>rgb_r = 0, rgb_g = 0, rgb_b = 0\<rparr>"
    using hexToRgb_invalid [of s] unfolding list_all_isHexDigit by blast
qed (simp_all only: hexToRgb_range hexDigitValue_table hexToRgb_example)

theorem hexToRgb_total_exact_witness:
  "hexToRgb ''ff8000'' = \<lparr>rgb_r = 255, rgb_g = 128, rgb_b = 0\<rparr>
   \<and> hexToRgb ''#12345'' = \<lparr>rgb_r = 0, rgb_g = 0, rgb_b = 0\<rparr>
   \<and> hexToRgb ''#GGGGGG'' = \<lparr>rgb_r = 0, rgb_g = 0, rgb_b = 0\<rparr>
   \<and> hexToRgb [] = \<lparr>rgb_r = 0, rgb_g = 0, rgb_b = 0\<rparr>"
proof (intro conjI)
  have "length ''ff8000'' = 6 \<and> set ''ff8000'' \<subseteq> set ''0123456789abcdefABCDEF''
          \<and> (''ff8000'' = ''ff8000'' \<or> ''ff8000'' = CHR ''#'' # ''ff8000'')"
    by simp
  with hexToRgb_total_exact [of "''ff8000''"]
  have "hexToRgb ''ff8000'' =
      \<lparr>rgb_r = 16 * hexDigitValue (''ff8000'' ! 0) + hexDigitValue (''ff8000'' ! 1),
       rgb_g = 16 * hexDigitValue (''ff8000'' ! 2) + hexDigitValue (''ff8000'' ! 3),
       rgb_b = 16 * hexDigitValue (''ff8000'' ! 4) + hexDigitValue (''ff8000'' ! 5)\<rparr>"
    by blast
  then show "hexToRgb ''ff8000'' = \<lparr>rgb_r = 255, rgb_g = 128, rgb_b = 0\<rparr>"
    by (simp add: hexDigitValue_def hexDigitTable_def)
next
  have "\<not> (\<exists>ds. length ds = 6 \<and> set ds \<subseteq> set ''0123456789abcdefABCDEF''
               \<and> (''#12345'' = ds \<or> ''#12345'' = CHR ''#'' # ds))"
    by auto
  with hexToRgb_total_exact [of "''#12345''"]
  show "hexToRgb ''#12345'' = \<lparr>rgb_r = 0, rgb_g = 0, rgb_b = 0\<rparr>"
    by blast
next
  have "\<not> (\<exists>ds. length ds = 6 \<and> set ds \<subseteq> set ''0123456789abcdefABCDEF''
               \<and> (''#GGGGGG'' = ds \<or> ''#GGGGGG'' = CHR ''#'' # ds))"
    by auto
  with hexToRgb_total_exact [of "''#GGGGGG''"]
  show "hexToRgb ''#GGGGGG'' = \<lparr>rgb_r = 0, rgb_g = 0, rgb_b = 0\<rparr>"
    by blast
next
  have "\<not> (\<exists>ds. length ds = 6 \<and> set ds \<subseteq> set ''0123456789abcdefABCDEF''
               \<and> ([] = ds \<or> [] = CHR ''#'' # ds))"
    by auto
  with hexToRgb_total_exact [of "[]"]
  show "hexToRgb [] = \<lparr>rgb_r = 0, rgb_g = 0, rgb_b = 0\<rparr>"
    by blast
qed

subsection \<open>escapeHtml\<close>

lemma escape_char:
  "(if isEscapeChar ch
    then (case map_of escapeMap ch of Some e \<Rightarrow> e | None \<Rightarrow> ''undefined'')
    else [ch]) = spec_entity ch"
  by (simp add: isEscapeChar_def escapeMap_def spec_entity_def)

lemma escapeHtml_concat: "escapeHtml text = concat (map spec_entity text)"
  unfolding escapeHtml_def
  by (induction "text") (simp_all add: escape_char)

lemma escapeHtml_append: "escapeHtml (s @ t) = escapeHtml s @ escapeHtml t"
  by (simp add: escapeHtml_concat)

lemma spec_entity_no_markup:
  "set (spec_entity ch) \<inter> {CHR ''<'', CHR ''>'', CHR 0x22, CHR 0x27} = {}"
  by (simp add: spec_entity_def)

lemma escapeHtml_no_markup:
  "set (escapeHtml text) \<inter> {CHR ''<'', CHR ''>'', CHR 0x22, CHR 0x27} = {}"
  using spec_entity_no_markup by (fastforce simp: escapeHtml_concat)

lemma escapeHtml_no_lt: "CHR ''<'' \<notin> set (escapeHtml text)"
  using escapeHtml_no_markup [of "text"] by blast

lemma escapeHtml_no_gt: "CHR ''>'' \<notin> set (escapeHtml text)"
  using escapeHtml_no_markup [of "text"] by blast

lemma escapeHtml_safe:
  "\<forall>ch\<in>set text. ch \<notin> {CHR ''&'', CHR ''<'', CHR ''>'', CHR 0x22, CHR 0x27}
     \<Longrightarrow> escapeHtml text = text"
  by (induction "text") (simp_all add: escapeHtml_concat spec_entity_def)

text \<open>
  C3. \<open>escapeHtml\<close> replaces every character of the input by its entity when it is one
  of \<open>& < > " '\<close> and by itself otherwise, one character of the input after the other.
  So the output has no \<open><\<close>, \<open>>\<close>, \<open>"\<close> or \<open>'\<close>; the ampersand of an entity is not
  escaped again (\<open><\<close> gives \<open>&lt;\<close>, \<open>&\<close> gives \<open>&amp;\<close>, and the length of the output is
  the sum of the lengths of the entities); and a string with none of the five
  characters is returned as it is.
\<close>

theorem escapeHtml_single_pass:
  \<open>escapeHtml text = concat (map spec_entity text)
   \<and> set (escapeHtml text) \<inter> {CHR ''<'', CHR ''>'', CHR 0x22, CHR 0x27} = {}
   \<and> length (escapeHtml text) = (\<Sum>ch\<leftarrow>text. length (spec_entity ch))
   \<and> escapeHtml ''<'' = ''&lt;'' \<and> escapeHtml ''&'' = ''&amp;''
   \<and> escapeHtml ''&lt;'' = ''&amp;lt;''
   \<and> escapeHtml ''<script>alert("x")</script>''
         = ''&lt;script&gt;alert(&quot;x&quot;)&lt;/script&gt;''
   \<and> ((\<forall>ch\<in>set text. ch \<notin> {CHR ''&'', CHR ''<'', CHR ''>'', CHR 0x22, CHR 0x27})
        \<longrightarrow> escapeHtml text = text)\<close>
proof (intro conjI)
  show "length (escapeHtml text) = (\<Sum>ch\<leftarrow>text. length (spec_entity ch))"
    by (simp add: escapeHtml_concat length_concat comp_def)
  show \<open>escapeHtml ''<script>alert("x")</script>''
         = ''&lt;script&gt;alert(&quot;x&quot;)&lt;/script&gt;''\<close>
    by (simp add: escapeHtml_concat spec_entity_def)
qed (simp_all add: escapeHtml_no_markup escapeHtml_safe,
     simp_all add: escapeHtml_concat spec_entity_def)

theorem escapeHtml_single_pass_witness:
  "escapeHtml ''Hello world'' = ''Hello world''"
proof -
  have "\<forall>ch\<in>set ''Hello world''. ch \<notin> {CHR ''&'', CHR ''<'', CHR ''>'', CHR 0x22, CHR 0x27}"
    by simp
  with escapeHtml_single_pass [of "''Hello world''"] show ?thesis by blast
qed

subsection \<open>Objects and paths\<close>

lemma spread_map_of:
  "distinct (map fst src) \<Longrightarrow> map_of (spread obj src) = map_of obj ++ map_of src"
proof (induction src arbitrary: obj)
  case Nil
  then show ?case by (simp add: spread_def)
next
  case (Cons kv src)
  obtain k v where kv: "kv = (k, v)" by (cases kv)
  from Cons.prems kv have k: "k \<notin> fst ` set src" and d: "distinct (map fst src)" by auto
  from k have none: "map_of src k = None" by (simp add: map_of_eq_None_iff)
  have "map_of (spread obj (kv # src)) = map_of (spread (AList.update k v obj) src)"
    by (simp add: spread_def kv)
  also have "\<dots> = (map_of obj)(k \<mapsto> v) ++ map_of src"
    by (simp only: Cons.IH [OF d] update_conv')
  also have "\<dots> = (map_of obj ++ map_of src)(k \<mapsto> v)"
    using none by (auto simp: fun_eq_iff map_add_def split: option.splits)
  also have "\<dots> = map_of obj ++ map_of (kv # src)"
    by (simp add: kv)
  finally show ?case .
qed

lemma jat_append: "jat (p @ q) v = (case jat p v of Some w \<Rightarrow> jat q w | None \<Rightarrow> None)"
  by (induction p v rule: jat.induct) (auto split: option.splits)

lemma framer_component_at:
  "i < length cs \<Longrightarrow> jat [Key ''components'', Idx i] (framerConfig cs tk nm e) = Some (framerComponent (cs ! i))"
  by (simp add: framerConfig_def)


lemma webflow_node_at:
  "i < length cs \<Longrightarrow> jat [Key ''pages'', Idx 0, Key ''children'', Idx i] (webflowSite cs tk nm e) = Some (webflowNode e (i, cs ! i))"
  by (simp add: webflowSite_def nth_enumerate_eq)


subsection \<open>Differences between two values\<close>

lemma jdiffArr_refl_aux:
  "(\<And>v. v \<in> set vs \<Longrightarrow> jdiff v v = []) \<Longrightarrow> jdiffArr i vs vs = []"
  by (induction vs arbitrary: i) simp_all

lemma jdiffObj_refl_aux:
  "(\<And>k v. (k, v) \<in> set kvs \<Longrightarrow> jdiff v v = []) \<Longrightarrow> jdiffObj kvs kvs = []"
proof (induction kvs)
  case Nil
  then show ?case by simp
next
  case (Cons kv kvs)
  obtain k v where kv: "kv = (k, v)" by (cases kv)
  with Cons show ?case by auto
qed

lemma jdiff_refl: "jdiff v v = []"
proof (induction v)
  case (JArr vs)
  then show ?case by (simp add: jdiffArr_refl_aux)
next
  case (JObj kvs)
  have "jdiffObj kvs kvs = []"
  proof (rule jdiffObj_refl_aux)
    fix k v assume "(k, v) \<in> set kvs"
    then show "jdiff v v = []" using JObj.IH [of "(k, v)" v] by simp
  qed
  then show ?case by simp
qed simp_all

lemma framer_diff:
  "set (jdiff (framerConfig cs tk nm e1) (framerConfig cs tk nm e2))
     \<subseteq> {[Key ''metadata'', Key ''exportedAt'']}"
  by (simp add: framerConfig_def jdiff_refl)

lemma figma_styles_diff:
  "set (jdiffArr n (map (figmaStyle e1) (enumerate n ts)) (map (figmaStyle e2) (enumerate n ts)))
     \<subseteq> {[Idx k, Key ''key''] | k. n \<le> k \<and> k < n + length ts}"
proof (induction ts arbitrary: n)
  case Nil
  then show ?case by simp
next
  case (Cons t ts)
  have "set (jdiffArr (Suc n) (map (figmaStyle e1) (enumerate (Suc n) ts))
               (map (figmaStyle e2) (enumerate (Suc n) ts)))
         \<subseteq> {[Idx k, Key ''key''] | k. n \<le> k \<and> k < n + length (t # ts)}"
    using Cons.IH [of "Suc n"] by auto
  moreover have "set (map ((#) (Idx n)) (jdiff (figmaStyle e1 (n, t)) (figmaStyle e2 (n, t))))
         \<subseteq> {[Idx k, Key ''key''] | k. n \<le> k \<and> k < n + length (t # ts)}"
    by (cases t) (simp add: figmaStyle_def jdiff_refl)
  ultimately show ?case by simp
qed

lemma figma_diff:
  "set (jdiff (figmaDocument cs tk nm e1) (figmaDocument cs tk nm e2))
     \<subseteq> {[Key ''styles'', Idx k, Key ''key''] | k. k < length (orEmpty (colors tk))}"
  using figma_styles_diff [of 0 e1 "orEmpty (colors tk)" e2]
  by (auto simp add: figmaDocument_def jdiff_refl)

lemma webflow_nodes_diff:
  "set (jdiffArr n (map (webflowNode e1) (enumerate n cs)) (map (webflowNode e2) (enumerate n cs)))
     \<subseteq> {[Idx i, Key ''children'', Idx 0, Key ''_id''] | i. n \<le> i \<and> i < n + length cs}"
proof (induction cs arbitrary: n)
  case Nil
  then show ?case by simp
next
  case (Cons c cs)
  have "set (jdiffArr (Suc n) (map (webflowNode e1) (enumerate (Suc n) cs))
               (map (webflowNode e2) (enumerate (Suc n) cs)))
         \<subseteq> {[Idx i, Key ''children'', Idx 0, Key ''_id''] | i. n \<le> i \<and> i < n + length (c # cs)}"
    using Cons.IH [of "Suc n"] by auto
  moreover have "set (map ((#) (Idx n)) (jdiff (webflowNode e1 (n, c)) (webflowNode e2 (n, c))))
         \<subseteq> {[Idx i, Key ''children'', Idx 0, Key ''_id''] | i. n \<le> i \<and> i < n + length (c # cs)}"
    by (simp add: webflowNode_def jdiff_refl)
  ultimately show ?case by simp
qed



lemma webflow_nodes_diff_pages:
  "(\<lambda>p. Key ''pages'' # Idx 0 # Key ''children'' # p)
      ` set (jdiffArr 0 (map (webflowNode e1) (enumerate 0 cs)) (map (webflowNode e2) (enumerate 0 cs)))
     \<subseteq> {[Key ''pages'', Idx 0, Key ''children'', Idx i, Key ''children'', Idx 0, Key ''_id'']
            | i. i < length cs}"
  using webflow_nodes_diff [of 0 e1 cs e2] by auto

lemma webflow_diff:
  "set (jdiff (webflowSite cs tk nm e1) (webflowSite cs tk nm e2))
     \<subseteq> {[Key ''_id''], [Key ''createdOn''], [Key ''updatedOn''], [Key ''publishedOn''],
         [Key ''lastPublishedOn''],
         [Key ''pages'', Idx 0, Key ''_id''], [Key ''pages'', Idx 0, Key ''createdOn''],
         [Key ''pages'', Idx 0, Key ''updatedOn''], [Key ''pages'', Idx 0, Key ''publishedOn''],
         [Key ''pages'', Idx 0, Key ''rootElementId''],
         [Key ''cmsLocales'', Idx 0, Key ''_id'']}
       \<union> {[Key ''pages'', Idx 0, Key ''children'', Idx i, Key ''children'', Idx 0, Key ''_id'']
            | i. i < length cs}"
  using webflow_nodes_diff_pages [of e1 cs e2]
  by (simp add: webflowSite_def jdiff_refl) (rule subset_insertI2)+

subsection \<open>Numbers\<close>









subsection \<open>The sections of the document\<close>

lemma sectionStarts_skip: "CHR ''<'' \<notin> set a \<Longrightarrow> sectionStarts (a @ b) = sectionStarts b"
  by (induction a) auto

lemma digitsOf_chars: "set (digitsOf n) \<subseteq> set ''0123456789''"
proof (induction n rule: digitsOf.induct)
  case (1 n)
  have d: "\<And>k. k < 10 \<Longrightarrow> ''0123456789'' ! k \<in> set ''0123456789''"
    by (rule nth_mem) simp
  show ?case
  proof (cases "n < 10")
    case True
    then show ?thesis using d [of n] by (subst digitsOf.simps) simp
  next
    case False
    have "n mod 10 < 10" by simp
    with False 1 d [of "n mod 10"] show ?thesis
      by (subst digitsOf.simps) simp
  qed
qed

lemma numToString_no_lt: "CHR ''<'' \<notin> set (numToString n)"
  using digitsOf_chars [of "nat n"] digitsOf_chars [of "nat (- n)"]
  by (auto simp: numToString_def)

lemma sectionStarts_before_title: "sectionStarts (htmlBeforeTitle @ x) = sectionStarts x"
  by (simp add: htmlBeforeTitle_def)

lemma sectionStarts_before_variables: "sectionStarts (htmlBeforeVariables @ x) = sectionStarts x"
  by (simp add: htmlBeforeVariables_def)

lemma sectionStarts_after: "sectionStarts htmlAfterComponents = []"
  by (simp add: htmlAfterComponents_def)

lemma styleRules_no_lt: "CHR ''<'' \<notin> set htmlStyleRules"
  by code_simp

lemma sectionStarts_before_components: "sectionStarts (htmlBeforeComponents @ x) = sectionStarts x"
  by (simp add: htmlBeforeComponents_def)

lemma of_char_lt: "of_char CHR ''<'' = (60::nat)"
  by simp

lemma toLowerChar_lt: "toLowerChar ch = CHR ''<'' \<longleftrightarrow> ch = CHR ''<''"
proof -
  define n where "n = (of_char ch :: nat)"
  have ch: "ch = CHR ''<'' \<longleftrightarrow> n = 60"
    unfolding n_def of_char_lt [symmetric] by (simp only: of_char_eq_iff)
  have unfold: "toLowerChar ch =
      (if (65 \<le> n \<and> n \<le> 90) \<or> (192 \<le> n \<and> n \<le> 222 \<and> n \<noteq> 215) then char_of (n + 32) else ch)"
    unfolding toLowerChar_def n_def Let_def ..
  have up: "char_of (n + 32) = CHR ''<'' \<longleftrightarrow> (n + 32) mod 256 = 60"
  proof -
    have "char_of (n + 32) = CHR ''<'' \<longleftrightarrow> (of_char (char_of (n + 32)) :: nat) = of_char CHR ''<''"
      by (simp only: of_char_eq_iff)
    then show ?thesis by (simp only: of_char_of of_char_lt)
  qed
  show ?thesis
  proof (cases "(65 \<le> n \<and> n \<le> 90) \<or> (192 \<le> n \<and> n \<le> 222 \<and> n \<noteq> 215)")
    case True
    then have "n + 32 < 256" "65 \<le> n" by auto
    then have "(n + 32) mod 256 \<noteq> 60" "n \<noteq> 60" by simp_all
    with True show ?thesis by (simp only: unfold up ch if_True)
  next
    case False
    then show ?thesis by (simp only: unfold if_False)
  qed
qed
lemma toLowerCase_lt: "CHR ''<'' \<in> set (toLowerCase s) \<longleftrightarrow> CHR ''<'' \<in> set s"
proof -
  have "toLowerChar ch = CHR ''<'' \<longleftrightarrow> ch = CHR ''<''" for ch
    by (rule toLowerChar_lt)
  then have "CHR ''<'' \<in> toLowerChar ` set s \<longleftrightarrow> CHR ''<'' \<in> set s"
    by (metis (no_types, lifting) image_iff)
  then show ?thesis by (simp add: toLowerCase_def)
qed

lemma set_join: "set (join sep xs) \<subseteq> set sep \<union> (\<Union>x\<in>set xs. set x)"
  by (induction sep xs rule: join.induct) auto

lemma cssVariables_lt:
  assumes "\<forall>(name, color)\<in>set (orEmpty (colors tk)). CHR ''<'' \<notin> set name \<and> CHR ''<'' \<notin> set color"
  shows "CHR ''<'' \<notin> set (cssVariables tk)"
proof -
  have "CHR ''<'' \<notin> set (cssVariable nc)" if "nc \<in> set (orEmpty (colors tk))" for nc
    using assms that by (cases nc) (auto simp: cssVariable_def toLowerCase_lt)
  then show ?thesis
    using set_join [of "''\<newline>''" "map cssVariable (orEmpty (colors tk))"]
    by (auto simp: cssVariables_def)
qed

lemma sectionStarts_open:
  assumes "CHR ''<'' \<notin> set a"
  shows "sectionStarts (''<section'' @ a @ rest) = (a @ rest) # sectionStarts rest"
proof -
  have "sectionStarts ((''section'' @ a) @ rest) = sectionStarts rest"
    using assms by (intro sectionStarts_skip) simp
  then show ?thesis by simp
qed

lemma spec_sectionTag_no_lt:
  assumes "CHR ''<'' \<notin> set (c_type c)" "CHR ''<'' \<notin> set (c_bgColor c)"
    "CHR ''<'' \<notin> set (c_textColor c)"
  shows "CHR ''<'' \<notin> set (spec_sectionTag c)"
  using assms numToString_no_lt [of "c_width c"] numToString_no_lt [of "c_height c"]
  by (simp add: spec_sectionTag_def)

lemma componentHTML_split:
  "componentHTML c = ''\<newline>  '' @ ''<section'' @ spec_sectionTag c @ CHR ''>'' # componentBody c"
  by (simp add: componentHTML_def spec_sectionTag_def componentBody_def)

lemma sectionStarts_body: "sectionStarts (componentBody c @ x) = sectionStarts x"
proof -
  have t: "CHR ''<'' \<notin> set (escapeHtml (c_title c))" and b: "CHR ''<'' \<notin> set (escapeHtml (c_content c))"
    by (rule escapeHtml_no_lt)+
  have 1: "sectionStarts (''</p>\<newline>    </div>\<newline>  </section>\<newline>'' @ x) = sectionStarts x"
    by simp
  have 2: "sectionStarts (''</h2>\<newline>      <p>'' @ escapeHtml (c_content c) @ y) = sectionStarts y" for y
    using b by (simp add: sectionStarts_skip)
  have 3: "sectionStarts (''\<newline>    <div class=\"component-content\">\<newline>      <h2>''
              @ escapeHtml (c_title c) @ y) = sectionStarts y" for y
    using t by (simp add: sectionStarts_skip)
  have "componentBody c @ x =
      ''\<newline>    <div class=\"component-content\">\<newline>      <h2>''
        @ escapeHtml (c_title c) @ ''</h2>\<newline>      <p>'' @ escapeHtml (c_content c)
        @ ''</p>\<newline>    </div>\<newline>  </section>\<newline>'' @ x"
    by (simp add: componentBody_def)
  then show ?thesis by (simp only: 1 2 3)
qed

text \<open>The first section of a component's text is its own, whatever the component.\<close>

lemma sectionStarts_component_hd:
  "\<exists>more. sectionStarts (componentHTML c @ x)
             = (spec_sectionTag c @ CHR ''>'' # componentBody c @ x) # more"
proof -
  have "sectionStarts (componentHTML c @ x)
      = sectionStarts (''\<newline>  '' @ (''<section'' @ spec_sectionTag c @ CHR ''>'' # componentBody c @ x))"
    by (simp add: componentHTML_split)
  also have "\<dots> = sectionStarts (''<section'' @ spec_sectionTag c @ CHR ''>'' # componentBody c @ x)"
    by (rule sectionStarts_skip) simp
  finally show ?thesis by simp
qed

lemma sectionStarts_component:
  assumes "CHR ''<'' \<notin> set (c_type c)" "CHR ''<'' \<notin> set (c_bgColor c)"
    "CHR ''<'' \<notin> set (c_textColor c)"
  shows "sectionStarts (componentHTML c @ x)
           = (spec_sectionTag c @ CHR ''>'' # componentBody c @ x) # sectionStarts x"
proof -
  have lt: "CHR ''<'' \<notin> set (spec_sectionTag c @ ''>'')"
    using spec_sectionTag_no_lt [OF assms] by simp
  have "sectionStarts (componentHTML c @ x)
      = sectionStarts (''\<newline>  '' @ (''<section'' @ (spec_sectionTag c @ ''>'') @ (componentBody c @ x)))"
    by (simp add: componentHTML_split)
  also have "\<dots> = sectionStarts (''<section'' @ (spec_sectionTag c @ ''>'') @ (componentBody c @ x))"
    by (rule sectionStarts_skip) simp
  also have "\<dots> = ((spec_sectionTag c @ ''>'') @ (componentBody c @ x)) # sectionStarts (componentBody c @ x)"
    using lt by (rule sectionStarts_open)
  finally show ?thesis by (simp add: sectionStarts_body)
qed

lemma sectionStarts_components:
  assumes "\<forall>c\<in>set cs. CHR ''<'' \<notin> set (c_type c) \<and> CHR ''<'' \<notin> set (c_bgColor c)
                      \<and> CHR ''<'' \<notin> set (c_textColor c)"
  shows "\<exists>found. sectionStarts (componentsHTML cs @ x) = found @ sectionStarts x
           \<and> list_all2 (\<lambda>c s. prefix (spec_sectionTag c @ ''>'') s) cs found"
  using assms unfolding componentsHTML_def
proof (induction "''\<newline>''" "map componentHTML cs" arbitrary: cs rule: join.induct)
  case 1
  then show ?case by simp
next
  case (2 s)
  then obtain c where c: "cs = [c]" "s = componentHTML c" by auto
  with 2 have "sectionStarts (componentHTML c @ x)
      = (spec_sectionTag c @ CHR ''>'' # componentBody c @ x) # sectionStarts x"
    by (intro sectionStarts_component) simp_all
  then have "sectionStarts (join ''\<newline>'' (map componentHTML cs) @ x)
      = [spec_sectionTag c @ CHR ''>'' # componentBody c @ x] @ sectionStarts x"
    using c by simp
  moreover have "list_all2 (\<lambda>c s. prefix (spec_sectionTag c @ ''>'') s) cs
      [spec_sectionTag c @ CHR ''>'' # componentBody c @ x]"
    using c by simp
  ultimately show ?case by blast
next
  case (3 s t rest)
  then obtain c cs' where cs: "cs = c # cs'" "s = componentHTML c" "t # rest = map componentHTML cs'"
    by (cases cs) auto
  let ?x' = "''\<newline>'' @ (join ''\<newline>'' (map componentHTML cs') @ x)"
  from 3 cs obtain found where
    f: "sectionStarts (join ''\<newline>'' (map componentHTML cs') @ x) = found @ sectionStarts x"
      "list_all2 (\<lambda>c s. prefix (spec_sectionTag c @ ''>'') s) cs' found"
    by auto
  have "sectionStarts (join ''\<newline>'' (map componentHTML cs) @ x)
      = sectionStarts (componentHTML c @ ?x')"
    using cs by (metis append.assoc join.simps(3) list.simps(9))
  also have "\<dots> = (spec_sectionTag c @ CHR ''>'' # componentBody c @ ?x') # sectionStarts ?x'"
    using 3(3) cs by (intro sectionStarts_component) simp_all
  also have "sectionStarts ?x' = sectionStarts (join ''\<newline>'' (map componentHTML cs') @ x)"
    by simp
  finally have "sectionStarts (join ''\<newline>'' (map componentHTML cs) @ x)
      = ((spec_sectionTag c @ CHR ''>'' # componentBody c @ ?x') # found) @ sectionStarts x"
    using f(1) by simp
  moreover have "list_all2 (\<lambda>c s. prefix (spec_sectionTag c @ ''>'') s) cs
      ((spec_sectionTag c @ CHR ''>'' # componentBody c @ ?x') # found)"
    using f(2) cs by simp
  ultimately show ?case by blast
qed

lemma sectionStarts_document:
  assumes "\<forall>(name, color)\<in>set (orEmpty (colors tk)). CHR ''<'' \<notin> set name \<and> CHR ''<'' \<notin> set color"
  shows "sectionStarts (htmlContent cs tk nm) = sectionStarts (componentsHTML cs @ htmlAfterComponents)"
proof -
  have "sectionStarts (htmlContent cs tk nm)
      = sectionStarts (escapeHtml nm @ htmlBeforeVariables @ cssVariables tk @ htmlStyleRules
          @ htmlBeforeComponents @ componentsHTML cs @ htmlAfterComponents)"
    by (simp only: htmlContent_def sectionStarts_before_title append_assoc)
  also have "\<dots> = sectionStarts (htmlBeforeVariables @ cssVariables tk @ htmlStyleRules
          @ htmlBeforeComponents @ componentsHTML cs @ htmlAfterComponents)"
    by (rule sectionStarts_skip) (rule escapeHtml_no_lt)
  also have "\<dots> = sectionStarts (cssVariables tk @ htmlStyleRules
          @ htmlBeforeComponents @ componentsHTML cs @ htmlAfterComponents)"
    by (rule sectionStarts_before_variables)
  also have "\<dots> = sectionStarts (htmlStyleRules
          @ htmlBeforeComponents @ componentsHTML cs @ htmlAfterComponents)"
    by (rule sectionStarts_skip) (rule cssVariables_lt [OF assms])
  also have "\<dots> = sectionStarts (htmlBeforeComponents @ componentsHTML cs @ htmlAfterComponents)"
    by (rule sectionStarts_skip) (rule styleRules_no_lt)
  also have "\<dots> = sectionStarts (componentsHTML cs @ htmlAfterComponents)"
    by (rule sectionStarts_before_components)
  finally show ?thesis .
qed

lemma sectionStarts_htmlContent:
  assumes "\<forall>c\<in>set cs. CHR ''<'' \<notin> set (c_type c) \<and> CHR ''<'' \<notin> set (c_bgColor c)
                      \<and> CHR ''<'' \<notin> set (c_textColor c)"
    and "\<forall>(name, color)\<in>set (orEmpty (colors tk)). CHR ''<'' \<notin> set name \<and> CHR ''<'' \<notin> set color"
  shows "list_all2 (\<lambda>c s. prefix (spec_sectionTag c @ ''>'') s) cs
           (sectionStarts (htmlContent cs tk nm))"
  using sectionStarts_components [OF assms(1), of htmlAfterComponents]
  by (auto simp only: sectionStarts_document [OF assms(2)] sectionStarts_after append_Nil2)

section \<open>The payloads\<close>

text \<open>
  C6. The framer payload has exactly one frame: it is named \<open>frame-1\<close>, its width is 1440,
  its height is 400 times the number of components (0 for no component), and its
  children are the identifiers of the components in input order.
\<close>

theorem framer_single_frame:
  "\<exists>fr. jat [Key ''frames''] (framerConfig cs tk nm e) = Some (JArr [fr])
     \<and> jat [Key ''id''] fr = Some (JStr ''frame-1'')
     \<and> jat [Key ''width''] fr = Some (JNum 1440)
     \<and> jat [Key ''height''] fr = Some (JNum (400 * of_nat (length cs)))
     \<and> jat [Key ''children''] fr = Some (JArr (map (\<lambda>c. JStr (c_id c)) cs))
     \<and> jat [Key ''frames'', Idx 0, Key ''height''] (framerConfig [] tk nm e) = Some (JNum 0)"
  by (simp add: framerConfig_def)





text \<open>
  C7. In the framer payload the \<open>props\<close> of a component are the eight explicit fields
  overridden by the component's open properties: a key of the properties takes the
  value the properties give it, also when it names an explicit field.
\<close>

theorem framer_props_merge:
  assumes "i < length cs" and "distinct (map fst (c_properties (cs ! i)))"
  shows "\<exists>props. jat [Key ''components'', Idx i, Key ''props''] (framerConfig cs tk nm e)
                    = Some (JObj props)
           \<and> map_of props =
               map_of [(''title'', JStr (c_title (cs ! i))),
                       (''content'', JStr (c_content (cs ! i))),
                       (''backgroundColor'', JStr (c_bgColor (cs ! i))),
                       (''textColor'', JStr (c_textColor (cs ! i))),
                       (''width'', JNum (of_int (c_width (cs ! i)))),
                       (''height'', JNum (of_int (c_height (cs ! i)))),
                       (''x'', JNum (of_int (c_x (cs ! i)))),
                       (''y'', JNum (of_int (c_y (cs ! i))))]
               ++ map_of (c_properties (cs ! i))"
proof -
  have "jat [Key ''components'', Idx i, Key ''props''] (framerConfig cs tk nm e)
      = (case jat [Key ''components'', Idx i] (framerConfig cs tk nm e) of
           Some w \<Rightarrow> jat [Key ''props''] w | None \<Rightarrow> None)"
    using jat_append [of "[Key ''components'', Idx i]" "[Key ''props'']"] by simp
  then have "jat [Key ''components'', Idx i, Key ''props''] (framerConfig cs tk nm e)
      = jat [Key ''props''] (framerComponent (cs ! i))"
    by (simp only: framer_component_at [OF assms(1)] option.case)
  then show ?thesis
    by (simp add: framerComponent_def spread_map_of [OF assms(2)])
qed

theorem framer_props_merge_witness:
  "\<exists>props. jat [Key ''components'', Idx 0, Key ''props'']
              (framerConfig [overridingComponent] mockDesignTokens ''Test Project'' runA)
                = Some (JObj props)
     \<and> map_of props ''width'' = Some (JNum 50)
     \<and> map_of props ''height'' = Some (JNum 400)
     \<and> map_of props ''variant'' = Some (JStr ''dark'')"
proof -
  have "(0::nat) < length [overridingComponent]" by simp
  moreover have "distinct (map fst (c_properties ([overridingComponent] ! 0)))"
    by (simp add: overridingComponent_def)
  ultimately show ?thesis
    using framer_props_merge [of 0 "[overridingComponent]" mockDesignTokens "''Test Project''" runA]
    by (auto simp: overridingComponent_def mockComponent_def map_add_def)
qed

subsection \<open>What the document escapes\<close>

lemma sublist_join: "x \<in> set xs \<Longrightarrow> sublist x (join sep xs)"
proof (induction sep xs rule: join.induct)
  case (1 sep)
  then show ?case by simp
next
  case (2 sep s)
  then show ?case by simp
next
  case (3 sep s t rest)
  show ?case
  proof (cases "x = s")
    case True
    then show ?thesis by simp
  next
    case False
    with 3 have "sublist x (join sep (t # rest))" by simp
    moreover have "sublist (join sep (t # rest)) ((s @ sep) @ join sep (t # rest))"
      by (rule sublist_append_leftI)
    ultimately show ?thesis by (simp add: sublist_order.order_trans)
  qed
qed

lemma sublist_component:
  assumes "c \<in> set cs" "sublist part (componentHTML c)"
  shows "sublist part (htmlContent cs tk nm)"
proof -
  have "sublist (componentHTML c) (componentsHTML cs)"
    unfolding componentsHTML_def using assms(1) by (intro sublist_join) simp
  moreover have "sublist (componentsHTML cs) (htmlContent cs tk nm)"
  proof -
    have "htmlContent cs tk nm =
        (htmlBeforeTitle @ escapeHtml nm @ htmlBeforeVariables @ cssVariables tk
           @ htmlStyleRules @ htmlBeforeComponents) @ componentsHTML cs @ htmlAfterComponents"
      by (simp add: htmlContent_def)
    then show ?thesis by (simp only: sublist_appendI)
  qed
  ultimately show ?thesis using assms(2) by (meson sublist_order.order_trans)
qed

lemma sublist_title:
  "sublist (''<title>'' @ escapeHtml nm @ ''</title>'') (htmlContent cs tk nm)"
proof -
  have "htmlContent cs tk nm =
      take (length htmlBeforeTitle - 7) htmlBeforeTitle
        @ (''<title>'' @ escapeHtml nm @ ''</title>'')
        @ (drop 8 htmlBeforeVariables @ cssVariables tk
           @ htmlStyleRules @ htmlBeforeComponents @ componentsHTML cs @ htmlAfterComponents)"
    by (simp add: htmlContent_def htmlBeforeTitle_def htmlBeforeVariables_def)
  then show ?thesis by (simp only: sublist_appendI)
qed

text \<open>
  C10. In the document every component has its opening tag with the type, the two
  colours, the width and the height inserted as they are, its title and its content
  inserted through \<open>escapeHtml\<close>, and the title of the document is the project name
  through \<open>escapeHtml\<close>. So a quotation mark in a background colour is in the document
  as it is.
\<close>

theorem html_escaping_scope:
  \<open>(\<forall>c\<in>set cs.
       sublist (''<section class="component component-'' @ c_type c
                  @ ''" style="background-color: '' @ c_bgColor c
                  @ ''; color: '' @ c_textColor c
                  @ ''; width: '' @ numToString (c_width c)
                  @ ''%; height: '' @ numToString (c_height c) @ ''px;">'')
               (htmlContent cs tk nm)
     \<and> sublist (''<h2>'' @ escapeHtml (c_title c) @ ''</h2>'') (htmlContent cs tk nm)
     \<and> sublist (''<p>'' @ escapeHtml (c_content c) @ ''</p>'') (htmlContent cs tk nm))
   \<and> sublist (''<title>'' @ escapeHtml nm @ ''</title>'') (htmlContent cs tk nm)
   \<and> (\<exists>c. CHR 0x22 \<in> set (c_bgColor c)
          \<and> sublist (''background-color: '' @ c_bgColor c @ '';'') (htmlContent [c] tk nm))\<close>
proof (intro conjI ballI)
  fix c assume c: "c \<in> set cs"
  let ?tag = \<open>''<section class="component component-'' @ c_type c
                  @ ''" style="background-color: '' @ c_bgColor c
                  @ ''; color: '' @ c_textColor c
                  @ ''; width: '' @ numToString (c_width c)
                  @ ''%; height: '' @ numToString (c_height c) @ ''px;">''\<close>
  have "componentHTML c = ''\<newline>  '' @ ?tag @ componentBody c"
    by (simp add: componentHTML_def componentBody_def)
  then have "sublist ?tag (componentHTML c)" by (simp only: sublist_appendI)
  with c show "sublist ?tag (htmlContent cs tk nm)" by (rule sublist_component)
  have \<open>componentHTML c =
      (''\<newline>  '' @ ?tag @ ''\<newline>    <div class="component-content">\<newline>      '')
      @ (''<h2>'' @ escapeHtml (c_title c) @ ''</h2>'')
      @ (''\<newline>      <p>'' @ escapeHtml (c_content c) @ ''</p>\<newline>    </div>\<newline>  </section>\<newline>'')\<close>
    by (simp add: componentHTML_def)
  then have "sublist (''<h2>'' @ escapeHtml (c_title c) @ ''</h2>'') (componentHTML c)"
    by (simp only: sublist_appendI)
  with c show "sublist (''<h2>'' @ escapeHtml (c_title c) @ ''</h2>'') (htmlContent cs tk nm)"
    by (rule sublist_component)
  have \<open>componentHTML c =
      (''\<newline>  '' @ ?tag @ ''\<newline>    <div class="component-content">\<newline>      <h2>''
         @ escapeHtml (c_title c) @ ''</h2>\<newline>      '')
      @ (''<p>'' @ escapeHtml (c_content c) @ ''</p>'')
      @ ''\<newline>    </div>\<newline>  </section>\<newline>''\<close>
    by (simp add: componentHTML_def)
  then have "sublist (''<p>'' @ escapeHtml (c_content c) @ ''</p>'') (componentHTML c)"
    by (simp only: sublist_appendI)
  with c show "sublist (''<p>'' @ escapeHtml (c_content c) @ ''</p>'') (htmlContent cs tk nm)"
    by (rule sublist_component)
next
  show "sublist (''<title>'' @ escapeHtml nm @ ''</title>'') (htmlContent cs tk nm)"
    by (rule sublist_title)
next
  let ?c = quotedColorComponent
  have \<open>componentHTML ?c =
      (''\<newline>  <section class="component component-'' @ c_type ?c @ ''" style="'')
      @ (''background-color: '' @ c_bgColor ?c @ '';'')
      @ ('' color: '' @ c_textColor ?c @ ''; width: '' @ numToString (c_width ?c)
         @ ''%; height: '' @ numToString (c_height ?c) @ ''px;">'' @ componentBody ?c)\<close>
    by (simp add: componentHTML_def componentBody_def)
  then have "sublist (''background-color: '' @ c_bgColor ?c @ '';'') (componentHTML ?c)"
    by (simp only: sublist_appendI)
  then have "sublist (''background-color: '' @ c_bgColor ?c @ '';'') (htmlContent [?c] tk nm)"
    by (intro sublist_component [of ?c]) simp_all
  moreover have "CHR 0x22 \<in> set (c_bgColor ?c)"
    by (simp add: quotedColorComponent_def)
  ultimately show "\<exists>c. CHR 0x22 \<in> set (c_bgColor c)
          \<and> sublist (''background-color: '' @ c_bgColor c @ '';'') (htmlContent [c] tk nm)"
    by blast
qed

theorem html_escaping_scope_witness:
  \<open>CHR 0x22 \<in> set (c_bgColor quotedColorComponent)
   \<and> sublist (''<section class="component component-hero" style="background-color: ''
               @ ''red;" onclick="go()''
               @ ''; color: #FFFFFF; width: 100%; height: 400px;">'')
             (htmlContent [quotedColorComponent] noTokens ''Test Project'')\<close>
proof -
  have "quotedColorComponent \<in> set [quotedColorComponent]" by simp
  with html_escaping_scope [of "[quotedColorComponent]" noTokens "''Test Project''"]
  have \<open>sublist (''<section class="component component-'' @ c_type quotedColorComponent
                  @ ''" style="background-color: '' @ c_bgColor quotedColorComponent
                  @ ''; color: '' @ c_textColor quotedColorComponent
                  @ ''; width: '' @ numToString (c_width quotedColorComponent)
                  @ ''%; height: '' @ numToString (c_height quotedColorComponent) @ ''px;">'')
               (htmlContent [quotedColorComponent] noTokens ''Test Project'')\<close>
    by blast
  moreover have "numToString 100 = ''100''" "numToString 400 = ''400''"
    by (simp_all add: numToString_def digitsOf.simps)
  ultimately show ?thesis
    by (simp add: quotedColorComponent_def mockComponent_def)
qed

subsection \<open>Two runs, and inputs with nothing in them\<close>

lemma ids_differ: "nanoid runA k \<noteq> nanoid runB k"
  by (simp add: runA_def runB_def)

lemma dates_agree: "toISOString runA k = toISOString runB k"
  by (simp add: runA_def runB_def)

text \<open>
  C1, as stated, fails. Two runs with the same components, tokens and project name, at
  the same time of day, whose \<open>nanoid\<close> results differ: the webflow payloads differ in
  five \<open>_id\<close> fields and the figma payloads in the \<open>key\<close> of every style, which are
  neither the identifier in the storage key nor a timestamp.
\<close>

theorem export_payload_ids_counterexample:
  "toISOString runA = toISOString runB
   \<and> jdiff (webflowSite [mockComponent] mockDesignTokens ''Test Project'' runA)
           (webflowSite [mockComponent] mockDesignTokens ''Test Project'' runB)
     = [[Key ''_id''],
        [Key ''pages'', Idx 0, Key ''_id''],
        [Key ''pages'', Idx 0, Key ''rootElementId''],
        [Key ''pages'', Idx 0, Key ''children'', Idx 0, Key ''children'', Idx 0, Key ''_id''],
        [Key ''cmsLocales'', Idx 0, Key ''_id'']]
   \<and> jdiff (figmaDocument [mockComponent] mockDesignTokens ''Test Project'' runA)
           (figmaDocument [mockComponent] mockDesignTokens ''Test Project'' runB)
     = [[Key ''styles'', Idx 0, Key ''key''],
        [Key ''styles'', Idx 1, Key ''key''],
        [Key ''styles'', Idx 2, Key ''key'']]"
proof (intro conjI)
  show "toISOString runA = toISOString runB"
    by (simp add: runA_def runB_def)
qed (simp_all add: webflowSite_def webflowNode_def figmaDocument_def figmaStyle_def
      mockDesignTokens_def orEmpty_def jdiff_refl ids_differ dates_agree)

text \<open>
  C1, amended. Two exports of the same components, tokens and project name in the same
  format differ at most in these fields of the payload. Framer: \<open>metadata.exportedAt\<close>.
  Figma: the \<open>key\<close> of each style (there is no timestamp). Webflow: the site's \<open>_id\<close>,
  \<open>createdOn\<close>, \<open>updatedOn\<close>, \<open>publishedOn\<close> and \<open>lastPublishedOn\<close>, the page's \<open>_id\<close>,
  \<open>createdOn\<close>, \<open>updatedOn\<close>, \<open>publishedOn\<close> and \<open>rootElementId\<close>, the \<open>_id\<close> of each
  component's paragraph, and the locale's \<open>_id\<close>. HTML: nothing; a storage that looks at
  the content and the content type alone answers both runs alike, and the format tag and
  the file name are the same.
\<close>

theorem export_payload_differences:
  "set (jdiff (framerConfig cs tk nm e1) (framerConfig cs tk nm e2))
     \<subseteq> {[Key ''metadata'', Key ''exportedAt'']}
   \<and> set (jdiff (figmaDocument cs tk nm e1) (figmaDocument cs tk nm e2))
     \<subseteq> {[Key ''styles'', Idx k, Key ''key''] | k. k < length (orEmpty (colors tk))}
   \<and> set (jdiff (webflowSite cs tk nm e1) (webflowSite cs tk nm e2))
     \<subseteq> {[Key ''_id''], [Key ''createdOn''], [Key ''updatedOn''], [Key ''publishedOn''],
         [Key ''lastPublishedOn''],
         [Key ''pages'', Idx 0, Key ''_id''], [Key ''pages'', Idx 0, Key ''createdOn''],
         [Key ''pages'', Idx 0, Key ''updatedOn''], [Key ''pages'', Idx 0, Key ''publishedOn''],
         [Key ''pages'', Idx 0, Key ''rootElementId''],
         [Key ''cmsLocales'', Idx 0, Key ''_id'']}
       \<union> {[Key ''pages'', Idx 0, Key ''children'', Idx i, Key ''children'', Idx 0, Key ''_id'']
            | i. i < length cs}
   \<and> (\<exists>r1 r2.
         exportToHTML cs tk nm e1 (\<lambda>key body mime. Inr (store body mime)) = Inr r1
       \<and> exportToHTML cs tk nm e2 (\<lambda>key body mime. Inr (store body mime)) = Inr r2
       \<and> url r1 = store (TextBuffer (htmlContent cs tk nm)) ''text/html''
       \<and> url r2 = url r1 \<and> format r2 = format r1 \<and> fileName r2 = fileName r1)"
proof (intro conjI)
  show "\<exists>r1 r2.
         exportToHTML cs tk nm e1 (\<lambda>key body mime. Inr (store body mime)) = Inr r1
       \<and> exportToHTML cs tk nm e2 (\<lambda>key body mime. Inr (store body mime)) = Inr r2
       \<and> url r1 = store (TextBuffer (htmlContent cs tk nm)) ''text/html''
       \<and> url r2 = url r1 \<and> format r2 = format r1 \<and> fileName r2 = fileName r1"
    by (simp add: exportToHTML_def Let_def)
qed (rule framer_diff figma_diff webflow_diff)+


subsection \<open>Sections and classes\<close>

lemma numToString_100: "numToString 100 = ''100''"
  by (simp add: numToString_def digitsOf.simps)

lemma numToString_400: "numToString 400 = ''400''"
  by (simp add: numToString_def digitsOf.simps)

lemma numToString_80: "numToString 80 = ''80''"
  by (simp add: numToString_def digitsOf.simps)

lemma numToString_300: "numToString 300 = ''300''"
  by (simp add: numToString_def digitsOf.simps)

lemma noTokens_colors:
  "\<forall>(name, color)\<in>set (orEmpty (colors noTokens)). CHR ''<'' \<notin> set name \<and> CHR ''<'' \<notin> set color"
  by (simp add: noTokens_def orEmpty_def)

lemma mockDesignTokens_colors:
  "\<forall>(name, color)\<in>set (orEmpty (colors mockDesignTokens)).
      CHR ''<'' \<notin> set name \<and> CHR ''<'' \<notin> set color"
  by (simp add: mockDesignTokens_def orEmpty_def)

lemma framer_components:
  "jat [Key ''components''] (framerConfig cs tk nm e) = Some (JArr (map framerComponent cs))"
  by (simp add: framerConfig_def)

lemma classAttr_injected:
  \<open>map classAttr (sectionStarts (htmlContent [injectedComponent] noTokens ''Test Project''))
     = [Some ''component component-x'', Some ''y'']\<close>
  by (simp add: sectionStarts_document [OF noTokens_colors] componentsHTML_def componentHTML_def
      injectedComponent_def mockComponent_def htmlAfterComponents_def
      escapeHtml_concat spec_entity_def numToString_100 numToString_400 classAttr_def)

lemma sublist_injected:
  \<open>sublist ''<section class="component component-x"><section class="y" style="''
     (htmlContent [injectedComponent] noTokens ''Test Project'')\<close>
proof -
  have \<open>prefix (''\<newline>  '' @ ''<section class="component component-x"><section class="y" style="'')
      (componentHTML injectedComponent)\<close>
    by (simp add: componentHTML_def injectedComponent_def mockComponent_def)
  then have \<open>sublist (''\<newline>  '' @ ''<section class="component component-x"><section class="y" style="'')
      (componentHTML injectedComponent)\<close>
    by (rule prefix_imp_sublist)
  moreover have \<open>sublist ''<section class="component component-x"><section class="y" style="''
      (''\<newline>  '' @ ''<section class="component component-x"><section class="y" style="'')\<close>
    by (rule sublist_append_leftI)
  ultimately have \<open>sublist ''<section class="component component-x"><section class="y" style="''
      (componentHTML injectedComponent)\<close>
    by (meson sublist_order.order_trans)
  then show ?thesis by (intro sublist_component [of injectedComponent]) simp_all
qed

text \<open>
  C4. The \<open>components\<close> of the framer payload are as many as the input components, and
  the i-th carries the \<open>id\<close>, the title as \<open>name\<close>, and the \<open>type\<close> of the i-th input
  component. The document has one section for each component, in input order, when no
  type, background colour, text colour or colour token has a \<open><\<close>: the i-th section
  starts with the attributes of the i-th component. It does not for every component
  list: the type \<open>x"><section class="y\<close> of one component is written into the document
  as it is and gives two sections, of the classes \<open>component component-x\<close> and \<open>y\<close>.
\<close>

theorem component_count_and_order:
  \<open>(\<exists>ds. jat [Key ''components''] (framerConfig cs tk nm e) = Some (JArr ds)
        \<and> length ds = length cs
        \<and> (\<forall>i<length cs.
              jat [Key ''id''] (ds ! i) = Some (JStr (c_id (cs ! i)))
            \<and> jat [Key ''name''] (ds ! i) = Some (JStr (c_title (cs ! i)))
            \<and> jat [Key ''type''] (ds ! i) = Some (JStr (c_type (cs ! i)))))
   \<and> ((\<forall>c\<in>set cs. CHR ''<'' \<notin> set (c_type c) \<and> CHR ''<'' \<notin> set (c_bgColor c)
                      \<and> CHR ''<'' \<notin> set (c_textColor c))
        \<and> (\<forall>(name, color)\<in>set (orEmpty (colors tk)).
              CHR ''<'' \<notin> set name \<and> CHR ''<'' \<notin> set color)
      \<longrightarrow> length (sectionStarts (htmlContent cs tk nm)) = length cs
          \<and> (\<forall>i<length cs.
                prefix (spec_sectionTag (cs ! i) @ ''>'') (sectionStarts (htmlContent cs tk nm) ! i)))
   \<and> map classAttr (sectionStarts (htmlContent [injectedComponent] noTokens ''Test Project''))
       = [Some ''component component-x'', Some ''y'']
   \<and> sublist ''<section class="component component-x"><section class="y" style="''
         (htmlContent [injectedComponent] noTokens ''Test Project'')\<close>
proof (intro conjI impI)
  have "\<forall>i<length cs.
          jat [Key ''id''] (map framerComponent cs ! i) = Some (JStr (c_id (cs ! i)))
        \<and> jat [Key ''name''] (map framerComponent cs ! i) = Some (JStr (c_title (cs ! i)))
        \<and> jat [Key ''type''] (map framerComponent cs ! i) = Some (JStr (c_type (cs ! i)))"
    by (simp add: framerComponent_def)
  then show "\<exists>ds. jat [Key ''components''] (framerConfig cs tk nm e) = Some (JArr ds)
        \<and> length ds = length cs
        \<and> (\<forall>i<length cs.
              jat [Key ''id''] (ds ! i) = Some (JStr (c_id (cs ! i)))
            \<and> jat [Key ''name''] (ds ! i) = Some (JStr (c_title (cs ! i)))
            \<and> jat [Key ''type''] (ds ! i) = Some (JStr (c_type (cs ! i))))"
    using framer_components [of cs tk nm e] by (intro exI [of _ "map framerComponent cs"]) simp
next
  assume a: "(\<forall>c\<in>set cs. CHR ''<'' \<notin> set (c_type c) \<and> CHR ''<'' \<notin> set (c_bgColor c)
                      \<and> CHR ''<'' \<notin> set (c_textColor c))
        \<and> (\<forall>(name, color)\<in>set (orEmpty (colors tk)).
              CHR ''<'' \<notin> set name \<and> CHR ''<'' \<notin> set color)"
  then have l: "list_all2 (\<lambda>c s. prefix (spec_sectionTag c @ ''>'') s) cs
           (sectionStarts (htmlContent cs tk nm))"
    using sectionStarts_htmlContent [of cs tk nm] by blast
  then show "length (sectionStarts (htmlContent cs tk nm)) = length cs"
    by (simp add: list_all2_lengthD)
  from l show "\<forall>i<length cs.
                prefix (spec_sectionTag (cs ! i) @ ''>'') (sectionStarts (htmlContent cs tk nm) ! i)"
    by (simp add: list_all2_conv_all_nth)
next
  show \<open>map classAttr (sectionStarts (htmlContent [injectedComponent] noTokens ''Test Project''))
       = [Some ''component component-x'', Some ''y'']\<close>
    by (rule classAttr_injected)
  show \<open>sublist ''<section class="component component-x"><section class="y" style="''
         (htmlContent [injectedComponent] noTokens ''Test Project'')\<close>
    by (rule sublist_injected)
qed

theorem component_count_and_order_witness:
  \<open>jat [Key ''components'', Idx 0, Key ''id'']
      (framerConfig [mockComponent, featuresComponent] mockDesignTokens ''Test Project'' runA)
       = Some (JStr ''comp-1'')
   \<and> jat [Key ''components'', Idx 1, Key ''id'']
      (framerConfig [mockComponent, featuresComponent] mockDesignTokens ''Test Project'' runA)
       = Some (JStr ''comp-2'')
   \<and> length (sectionStarts
        (htmlContent [mockComponent, featuresComponent] mockDesignTokens ''Test Project'')) = 2
   \<and> prefix '' class="component component-hero" style="background-color: #3B82F6; color: #FFFFFF; width: 100%; height: 400px;">''
        (sectionStarts
          (htmlContent [mockComponent, featuresComponent] mockDesignTokens ''Test Project'') ! 0)
   \<and> prefix '' class="component component-features" style="background-color: #FFFFFF; color: #111827; width: 80%; height: 300px;">''
        (sectionStarts
          (htmlContent [mockComponent, featuresComponent] mockDesignTokens ''Test Project'') ! 1)\<close>
proof -
  let ?cs = "[mockComponent, featuresComponent]"
  note inst = component_count_and_order [of ?cs mockDesignTokens "''Test Project''" runA]
  have clean: "\<forall>c\<in>set ?cs. CHR ''<'' \<notin> set (c_type c) \<and> CHR ''<'' \<notin> set (c_bgColor c)
                      \<and> CHR ''<'' \<notin> set (c_textColor c)"
    by (simp add: mockComponent_def featuresComponent_def)
  from inst clean mockDesignTokens_colors
  have html: "length (sectionStarts (htmlContent ?cs mockDesignTokens ''Test Project'')) = length ?cs"
    "\<forall>i<length ?cs. prefix (spec_sectionTag (?cs ! i) @ ''>'')
        (sectionStarts (htmlContent ?cs mockDesignTokens ''Test Project'') ! i)"
    by blast+
  from html(2) have
    "prefix (spec_sectionTag mockComponent @ ''>'')
        (sectionStarts (htmlContent ?cs mockDesignTokens ''Test Project'') ! 0)"
    "prefix (spec_sectionTag featuresComponent @ ''>'')
        (sectionStarts (htmlContent ?cs mockDesignTokens ''Test Project'') ! 1)"
    by auto
  moreover have \<open>spec_sectionTag mockComponent @ ''>''
      = '' class="component component-hero" style="background-color: #3B82F6; color: #FFFFFF; width: 100%; height: 400px;">''\<close>
    \<open>spec_sectionTag featuresComponent @ ''>''
      = '' class="component component-features" style="background-color: #FFFFFF; color: #111827; width: 80%; height: 300px;">''\<close>
    by (simp_all add: spec_sectionTag_def mockComponent_def featuresComponent_def
        numToString_100 numToString_400 numToString_80 numToString_300)
  ultimately have tags:
    \<open>prefix '' class="component component-hero" style="background-color: #3B82F6; color: #FFFFFF; width: 100%; height: 400px;">''
        (sectionStarts (htmlContent ?cs mockDesignTokens ''Test Project'') ! 0)\<close>
    \<open>prefix '' class="component component-features" style="background-color: #FFFFFF; color: #111827; width: 80%; height: 300px;">''
        (sectionStarts (htmlContent ?cs mockDesignTokens ''Test Project'') ! 1)\<close>
    by simp_all
  from inst obtain ds where
    ds: "jat [Key ''components''] (framerConfig ?cs mockDesignTokens ''Test Project'' runA)
           = Some (JArr ds)" "length ds = length ?cs"
    and ids: "\<forall>i<length ?cs. jat [Key ''id''] (ds ! i) = Some (JStr (c_id (?cs ! i)))"
    by blast
  from ids have "jat [Key ''id''] (ds ! 0) = Some (JStr (c_id mockComponent))"
    "jat [Key ''id''] (ds ! 1) = Some (JStr (c_id featuresComponent))"
    by auto
  with ds have
    "jat [Key ''components'', Idx 0, Key ''id'']
       (framerConfig ?cs mockDesignTokens ''Test Project'' runA) = Some (JStr ''comp-1'')"
    "jat [Key ''components'', Idx 1, Key ''id'']
       (framerConfig ?cs mockDesignTokens ''Test Project'' runA) = Some (JStr ''comp-2'')"
    using jat_append [of "[Key ''components'']" "[Idx 0, Key ''id'']"
        "framerConfig ?cs mockDesignTokens ''Test Project'' runA"]
      jat_append [of "[Key ''components'']" "[Idx 1, Key ''id'']"
        "framerConfig ?cs mockDesignTokens ''Test Project'' runA"]
    by (simp_all add: mockComponent_def featuresComponent_def del: jat.simps) simp_all
  with tags html(1) show ?thesis by simp
qed

lemma takeWhile_upto_iff:
  "takeWhile (\<lambda>ch. ch \<noteq> q) (a @ q # rest) = a \<longleftrightarrow> q \<notin> set a"
proof
  assume eq: "takeWhile (\<lambda>ch. ch \<noteq> q) (a @ q # rest) = a"
  show "q \<notin> set a"
  proof
    assume "q \<in> set a"
    then have "takeWhile (\<lambda>ch. ch \<noteq> q) (a @ q # rest) = takeWhile (\<lambda>ch. ch \<noteq> q) a"
      by simp
    with eq have "takeWhile (\<lambda>ch. ch \<noteq> q) a = a" by simp
    then have "\<forall>x\<in>set a. x \<noteq> q" by simp
    with \<open>q \<in> set a\<close> show False by blast
  qed
next
  assume "q \<notin> set a"
  then show "takeWhile (\<lambda>ch. ch \<noteq> q) (a @ q # rest) = a"
    by (induction a) auto
qed

lemma classAttr_spec_sectionTag:
  "classAttr (spec_sectionTag c @ rest)
     = Some (''component component-'' @ takeWhile (\<lambda>ch. ch \<noteq> CHR 0x22)
          (c_type c @ CHR 0x22 # ('' style=\"background-color: '' @ c_bgColor c
             @ ''; color: '' @ c_textColor c
             @ ''; width: '' @ numToString (c_width c)
             @ ''%; height: '' @ numToString (c_height c) @ ''px;\"'' @ rest)))"
  by (simp add: classAttr_def spec_sectionTag_def)

lemma classAttr_component:
  "classAttr (hd (sectionStarts (componentHTML c @ x))) = Some (''component component-'' @ c_type c)
     \<longleftrightarrow> CHR 0x22 \<notin> set (c_type c)"
proof -
  obtain more where "sectionStarts (componentHTML c @ x)
             = (spec_sectionTag c @ CHR ''>'' # componentBody c @ x) # more"
    using sectionStarts_component_hd by blast
  then have "classAttr (hd (sectionStarts (componentHTML c @ x)))
      = classAttr (spec_sectionTag c @ CHR ''>'' # componentBody c @ x)"
    by simp
  then show ?thesis
    by (simp only: classAttr_spec_sectionTag option.inject same_append_eq takeWhile_upto_iff)
qed

lemma classAttr_quotedType:
  "classAttr (hd (sectionStarts (htmlContent [quotedTypeComponent] noTokens ''Test Project'')))
     = Some ''component component-hero''"
proof -
  obtain more where "sectionStarts (componentHTML quotedTypeComponent @ htmlAfterComponents)
      = (spec_sectionTag quotedTypeComponent @ CHR ''>'' # componentBody quotedTypeComponent
           @ htmlAfterComponents) # more"
    using sectionStarts_component_hd by blast
  then have "classAttr (hd (sectionStarts (htmlContent [quotedTypeComponent] noTokens ''Test Project'')))
      = classAttr (spec_sectionTag quotedTypeComponent @ CHR ''>'' # componentBody quotedTypeComponent
           @ htmlAfterComponents)"
    by (simp add: sectionStarts_document [OF noTokens_colors] componentsHTML_def)
  then show ?thesis
    by (simp add: classAttr_spec_sectionTag quotedTypeComponent_def)
qed

lemma sublist_quotedType:
  \<open>sublist ''<section class="component component-hero" id="main" style="''
     (htmlContent [quotedTypeComponent] noTokens ''Test Project'')\<close>
proof -
  have \<open>prefix (''\<newline>  '' @ ''<section class="component component-hero" id="main" style="'')
      (componentHTML quotedTypeComponent)\<close>
    by (simp add: componentHTML_def quotedTypeComponent_def mockComponent_def)
  then have \<open>sublist (''\<newline>  '' @ ''<section class="component component-hero" id="main" style="'')
      (componentHTML quotedTypeComponent)\<close>
    by (rule prefix_imp_sublist)
  moreover have \<open>sublist ''<section class="component component-hero" id="main" style="''
      (''\<newline>  '' @ ''<section class="component component-hero" id="main" style="'')\<close>
    by (rule sublist_append_leftI)
  ultimately have \<open>sublist ''<section class="component component-hero" id="main" style="''
      (componentHTML quotedTypeComponent)\<close>
    by (meson sublist_order.order_trans)
  then show ?thesis by (intro sublist_component [of quotedTypeComponent]) simp_all
qed

text \<open>
  C8. In the webflow payload the page child of component i has the tag \<open>div\<close>, the title
  as text, the one class \<open>component-<type>\<close>, and one child, a \<open>p\<close> with the content as
  text. In the document the class attribute of a component's section is
  \<open>component component-<type>\<close> exactly when the type has no quotation mark: for the
  type \<open>hero" id="main\<close> the document has \<open>class="component component-hero" id="main"\<close>,
  a section of the class of another type.
\<close>

theorem component_class_naming:
  \<open>(\<forall>i<length cs. \<exists>node para.
        jat [Key ''pages'', Idx 0, Key ''children'', Idx i] (webflowSite cs tk nm e) = Some node
      \<and> jat [Key ''tag''] node = Some (JStr ''div'')
      \<and> jat [Key ''text''] node = Some (JStr (c_title (cs ! i)))
      \<and> jat [Key ''classes''] node = Some (JArr [JStr (''component-'' @ c_type (cs ! i))])
      \<and> jat [Key ''children''] node = Some (JArr [para])
      \<and> jat [Key ''tag''] para = Some (JStr ''p'')
      \<and> jat [Key ''text''] para = Some (JStr (c_content (cs ! i))))
   \<and> (classAttr (hd (sectionStarts (componentHTML c)))
         = Some (''component component-'' @ c_type c)
       \<longleftrightarrow> CHR 0x22 \<notin> set (c_type c))
   \<and> c_type quotedTypeComponent = ''hero" id="main''
   \<and> classAttr (hd (sectionStarts (htmlContent [quotedTypeComponent] noTokens ''Test Project'')))
       = Some ''component component-hero''
   \<and> sublist ''<section class="component component-hero" id="main" style="''
         (htmlContent [quotedTypeComponent] noTokens ''Test Project'')\<close>
proof (intro conjI allI impI)
  fix i assume "i < length cs"
  then have "jat [Key ''pages'', Idx 0, Key ''children'', Idx i] (webflowSite cs tk nm e)
      = Some (webflowNode e (i, cs ! i))"
    by (rule webflow_node_at)
  then show "\<exists>node para.
        jat [Key ''pages'', Idx 0, Key ''children'', Idx i] (webflowSite cs tk nm e) = Some node
      \<and> jat [Key ''tag''] node = Some (JStr ''div'')
      \<and> jat [Key ''text''] node = Some (JStr (c_title (cs ! i)))
      \<and> jat [Key ''classes''] node = Some (JArr [JStr (''component-'' @ c_type (cs ! i))])
      \<and> jat [Key ''children''] node = Some (JArr [para])
      \<and> jat [Key ''tag''] para = Some (JStr ''p'')
      \<and> jat [Key ''text''] para = Some (JStr (c_content (cs ! i)))"
    by (simp add: webflowNode_def)
next
  show "classAttr (hd (sectionStarts (componentHTML c)))
         = Some (''component component-'' @ c_type c)
       \<longleftrightarrow> CHR 0x22 \<notin> set (c_type c)"
    using classAttr_component [of c "[]"] by simp
next
  show \<open>c_type quotedTypeComponent = ''hero" id="main''\<close>
    by (simp add: quotedTypeComponent_def)
  show "classAttr (hd (sectionStarts (htmlContent [quotedTypeComponent] noTokens ''Test Project'')))
       = Some ''component component-hero''"
    by (rule classAttr_quotedType)
  show \<open>sublist ''<section class="component component-hero" id="main" style="''
         (htmlContent [quotedTypeComponent] noTokens ''Test Project'')\<close>
    by (rule sublist_quotedType)
qed

theorem component_class_naming_witness:
  "jat [Key ''pages'', Idx 0, Key ''children'', Idx 1, Key ''classes'']
     (webflowSite [mockComponent, featuresComponent] mockDesignTokens ''Test Project'' runA)
       = Some (JArr [JStr ''component-features''])
   \<and> jat [Key ''pages'', Idx 0, Key ''children'', Idx 1, Key ''children'', Idx 0, Key ''text'']
     (webflowSite [mockComponent, featuresComponent] mockDesignTokens ''Test Project'' runA)
       = Some (JStr ''Fast & simple'')"
proof -
  let ?cs = "[mockComponent, featuresComponent]"
  let ?site = "webflowSite ?cs mockDesignTokens ''Test Project'' runA"
  have len: "(1::nat) < length ?cs" by simp
  from len component_class_naming [of ?cs mockDesignTokens "''Test Project''" runA]
  obtain node para where
    node: "jat [Key ''pages'', Idx 0, Key ''children'', Idx 1] ?site = Some node"
    and cl: "jat [Key ''classes''] node = Some (JArr [JStr (''component-'' @ c_type (?cs ! 1))])"
    and kids: "jat [Key ''children''] node = Some (JArr [para])"
      "jat [Key ''text''] para = Some (JStr (c_content (?cs ! 1)))"
    by blast
  from node cl kids show ?thesis
    using jat_append [of "[Key ''pages'', Idx 0, Key ''children'', Idx 1]" "[Key ''classes'']" ?site]
      jat_append [of "[Key ''pages'', Idx 0, Key ''children'', Idx 1]"
        "[Key ''children'', Idx 0, Key ''text'']" ?site]
      jat_append [of "[Key ''children'']" "[Idx 0, Key ''text'']" node]
    by (simp add: featuresComponent_def del: jat.simps) simp
qed

end
